theory Spec2Isabelle
  imports Complex_Main
begin

section \<open>Configuration\<close>

text \<open>
  \<^verbatim>\<open>config.js\<close> exports one constant object. Each value the services read from it is a
  field of this record and every function below takes the record as a parameter, so a
  theorem about a function holds for every configuration; \<open>repository_config\<close> further
  down holds the values \<^verbatim>\<open>config.js\<close> sets. JavaScript numbers are modelled as
  \<^typ>\<open>real\<close> (counts and array lengths as \<^typ>\<open>nat\<close>); \<^verbatim>\<open>null\<close> and
  \<^verbatim>\<open>undefined\<close> are \<^term>\<open>None\<close>.
\<close>

record config =
  symbol :: string
  interval :: string
  wsUrl :: string
  maxClosingPrices :: nat
  ema5Period :: nat
  ema50Period :: nat
  maxEma5History :: nat
  minEmaDiff :: real
  maxPriceDiff :: real
  maxExtremeDiff :: real
  reconnectDelay :: real
  maxReconnectAttempts :: nat
  cfg_pingInterval :: real
  cfg_pongTimeout :: real

section \<open>services/technicalAnalysis.js\<close>

record technical_analysis =
  closingPrices :: "real list"
  ema5History :: "real list"
  ema50History :: "real list"
  previousEma5 :: "real option"
  previousEma50 :: "real option"
  volumeHistory :: "real list"

text \<open>The constructor (and \<^verbatim>\<open>reset\<close>).\<close>

definition new_TechnicalAnalysis :: technical_analysis where
  "new_TechnicalAnalysis =
     \<lparr>closingPrices = [], ema5History = [], ema50History = [],
      previousEma5 = None, previousEma50 = None, volumeHistory = []\<rparr>"

text \<open>\<^verbatim>\<open>addPrice(price, volume = null)\<close>: push, then shift once when over capacity.\<close>

definition addPrice :: "config \<Rightarrow> real \<Rightarrow> real option \<Rightarrow> technical_analysis \<Rightarrow> technical_analysis" where
  "addPrice cfg price volume ta =
     (let cp = closingPrices ta @ [price];
          cp' = (if length cp > maxClosingPrices cfg then tl cp else cp);
          vh' = (case volume of
                   None \<Rightarrow> volumeHistory ta
                 | Some v \<Rightarrow>
                     (let vh = volumeHistory ta @ [v]
                      in if length vh > maxClosingPrices cfg then tl vh else vh))
      in ta\<lparr>closingPrices := cp', volumeHistory := vh'\<rparr>)"

text \<open>
  Modelled from the spec: \<^verbatim>\<open>EMA.calculate\<close> of the package \<^verbatim>\<open>technicalindicators\<close>
  is not among the source files. The spec gives the recurrence
  \<^verbatim>\<open>EMA_t = price * (2/(period+1)) + EMA_{t-1} * (1 - 2/(period+1))\<close>, seeded with the
  simple average of the first \<^verbatim>\<open>period\<close> values, and no value while fewer than
  \<^verbatim>\<open>period\<close> values exist: the result has one entry for each input from the
  \<^verbatim>\<open>period\<close>-th on.
\<close>

fun ema_run :: "real \<Rightarrow> real \<Rightarrow> real list \<Rightarrow> real list" where
  "ema_run k prev [] = []"
| "ema_run k prev (p # ps) = (let e = p * k + prev * (1 - k) in e # ema_run k e ps)"

definition EMA_calculate :: "nat \<Rightarrow> real list \<Rightarrow> real list" where
  "EMA_calculate period vals =
     (if length vals < period then []
      else (let seed = sum_list (take period vals) / real period
            in seed # ema_run (2 / (real period + 1)) seed (drop period vals)))"

text \<open>\<^verbatim>\<open>arr[arr.length - 1]\<close>: \<^verbatim>\<open>undefined\<close> on the empty array.\<close>

definition last_entry :: "'a list \<Rightarrow> 'a option" where
  "last_entry xs = (if xs = [] then None else Some (last xs))"

definition calculateEMAs :: "config \<Rightarrow> technical_analysis \<Rightarrow> real \<Rightarrow> real option \<times> real option" where
  "calculateEMAs cfg ta currentPrice =
     (let prices = closingPrices ta @ [currentPrice]
      in if length prices < ema50Period cfg then (None, None)
         else (last_entry (EMA_calculate (ema5Period cfg) prices),
               last_entry (EMA_calculate (ema50Period cfg) prices)))"

text \<open>
  \<^verbatim>\<open>updateEmaHistory(ema5, ema50)\<close>: each value is pushed twice (lines 130-131 and
  136-137), then one entry is shifted when the length exceeds \<^verbatim>\<open>maxEma5History\<close>.
\<close>

definition updateEmaHistory :: "config \<Rightarrow> real \<Rightarrow> real \<Rightarrow> technical_analysis \<Rightarrow> technical_analysis" where
  "updateEmaHistory cfg ema5 ema50 ta =
     (let h5 = (ema5History ta @ [ema5]) @ [ema5];
          h5' = (if length h5 > maxEma5History cfg then tl h5 else h5);
          h50 = (ema50History ta @ [ema50]) @ [ema50];
          h50' = (if length h50 > maxEma5History cfg then tl h50 else h50)
      in ta\<lparr>ema5History := h5', ema50History := h50',
             previousEma5 := Some ema5, previousEma50 := Some ema50\<rparr>)"

text \<open>\<^verbatim>\<open>updateLastEma(ema5, ema50)\<close>: overwrite the last entry of both histories.\<close>

definition updateLastEma :: "real \<Rightarrow> real \<Rightarrow> technical_analysis \<Rightarrow> technical_analysis" where
  "updateLastEma ema5 ema50 ta =
     (if length (ema5History ta) > 0 \<and> length (ema50History ta) > 0
      then ta\<lparr>ema5History := (ema5History ta)[length (ema5History ta) - 1 := ema5],
              ema50History := (ema50History ta)[length (ema50History ta) - 1 := ema50]\<rparr>
      else ta)"

datatype arc_pattern = TOP | BOTTOM

text \<open>\<^verbatim>\<open>arr.slice(-5)\<close>: the last five entries (all of them when there are fewer).\<close>

definition slice_last5 :: "'a list \<Rightarrow> 'a list" where
  "slice_last5 xs = drop (length xs - 5) xs"

definition checkArcPattern :: "config \<Rightarrow> technical_analysis \<Rightarrow> real \<Rightarrow> real \<Rightarrow> arc_pattern option" where
  "checkArcPattern cfg ta currentEma5 currentEma50 =
     (if length (ema5History ta) < 5 \<or> length (ema50History ta) < 5 then None
      else
        (let lastFiveEma5 = slice_last5 (ema5History ta);
             lastFiveEma50 = slice_last5 (ema50History ta);
             middleEma5 = lastFiveEma5 ! 2;
             middleEma50 = lastFiveEma50 ! 2
         in if middleEma5 > lastFiveEma5 ! 0 \<and> middleEma5 > lastFiveEma5 ! 1 \<and>
               middleEma5 > lastFiveEma5 ! 3 \<and> middleEma5 > lastFiveEma5 ! 4 \<and>
               currentEma5 > currentEma50
            then (if \<bar>middleEma5 - middleEma50\<bar> < minEmaDiff cfg then None else Some TOP)
            else if middleEma5 < lastFiveEma5 ! 0 \<and> middleEma5 < lastFiveEma5 ! 1 \<and>
               middleEma5 < lastFiveEma5 ! 3 \<and> middleEma5 < lastFiveEma5 ! 4 \<and>
               currentEma5 < currentEma50
            then (if \<bar>middleEma5 - middleEma50\<bar> < minEmaDiff cfg then None else Some BOTTOM)
            else None))"

text \<open>
  The arc rule as the specification words it, for comparison with \<^const>\<open>checkArcPattern\<close>:
  a top needs the middle EMA5 strictly above its four neighbours and the current EMA5
  \<^emph>\<open>below\<close> the current EMA50; a bottom is the mirrored case with EMA5 above EMA50; both
  need \<^verbatim>\<open>|middleEma5 - middleEma50| >= minEmaDiff\<close>.
\<close>

definition spec_checkArcPattern :: "config \<Rightarrow> technical_analysis \<Rightarrow> real \<Rightarrow> real \<Rightarrow> arc_pattern option" where
  "spec_checkArcPattern cfg ta currentEma5 currentEma50 =
     (let w5 = slice_last5 (ema5History ta); w50 = slice_last5 (ema50History ta)
      in if w5 ! 2 > w5 ! 0 \<and> w5 ! 2 > w5 ! 1 \<and> w5 ! 2 > w5 ! 3 \<and> w5 ! 2 > w5 ! 4 \<and>
            currentEma5 < currentEma50 \<and> \<bar>w5 ! 2 - w50 ! 2\<bar> \<ge> minEmaDiff cfg
         then Some TOP
         else if w5 ! 2 < w5 ! 0 \<and> w5 ! 2 < w5 ! 1 \<and> w5 ! 2 < w5 ! 3 \<and> w5 ! 2 < w5 ! 4 \<and>
            currentEma5 > currentEma50 \<and> \<bar>w5 ! 2 - w50 ! 2\<bar> \<ge> minEmaDiff cfg
         then Some BOTTOM
         else None)"

text \<open>A configuration with the periods 5 and 50, histories of 20 and 200 closing prices,
  and small thresholds, for concrete evaluations below.\<close>

definition example_config :: config where
  "example_config =
     \<lparr>symbol = ''BTCUSDT'', interval = ''1m'', wsUrl = ''wss://fstream.binance.com/ws'',
      maxClosingPrices = 200, ema5Period = 5, ema50Period = 50, maxEma5History = 20,
      minEmaDiff = 1, maxPriceDiff = 1, maxExtremeDiff = 1 / 2,
      reconnectDelay = 1000, maxReconnectAttempts = 5,
      cfg_pingInterval = 30000, cfg_pongTimeout = 5000\<rparr>"

text \<open>The values of \<^verbatim>\<open>config.js\<close>.\<close>

definition repository_config :: config where
  "repository_config =
     \<lparr>symbol = ''BTCUSDT'', interval = ''1h'', wsUrl = ''wss://fstream.binance.com/ws'',
      maxClosingPrices = 200, ema5Period = 5, ema50Period = 50, maxEma5History = 20,
      minEmaDiff = 1000, maxPriceDiff = 100, maxExtremeDiff = 50,
      reconnectDelay = 5000, maxReconnectAttempts = 5,
      cfg_pingInterval = 30000, cfg_pongTimeout = 5000\<rparr>"

section \<open>services/tradingBot.js\<close>

text \<open>
  The bot's calls to the exchange are awaited requests whose answers come from outside
  the program. A call is modelled by its answer: \<open>Throws\<close> when the promise rejects,
  \<open>Returns v\<close> when it resolves to \<open>v\<close>. A handler is modelled as one invocation
  during whose awaits no other invocation writes the bot's fields; the stream manager
  does not await \<^verbatim>\<open>handleKline\<close>, so invocations for different messages can overlap, and
  nothing below speaks about overlapping invocations.
\<close>

datatype 'a reply = Throws | Returns 'a

datatype position_type = long | short

datatype cross_signal = DOWN_CROSS | UP_CROSS

text \<open>
  The orders a handler attempts, in the order of the calls: \<^verbatim>\<open>closePosition(price)\<close> and
  \<^verbatim>\<open>openPosition(direction, price)\<close>. Both functions size and place a market order
  through the REST client; here only the call and whether it returned or threw matter.
\<close>

datatype action = ClosePosition real | OpenPosition position_type real

text \<open>
  The answers one handler invocation receives: \<^verbatim>\<open>position.type\<close> of
  \<^verbatim>\<open>getCurrentPosition\<close> (\<^term>\<open>None\<close> for no position), and whether
  \<^verbatim>\<open>closePosition\<close> and \<^verbatim>\<open>openPosition\<close> return normally.
\<close>

record exchange_replies =
  getCurrentPosition_reply :: "position_type option reply"
  closePosition_returns :: bool
  openPosition_returns :: bool

text \<open>
  The fields of \<^verbatim>\<open>TradingBot\<close> that the signal handlers read. \<^verbatim>\<open>allowAddOrder\<close> is only
  ever written by the source, never read, and is left out.
\<close>

record trading_bot =
  technicalAnalysis :: technical_analysis
  lastArcPattern :: "arc_pattern option"
  lastCrossSignal :: "cross_signal option"
  crossPrice :: "real option"

definition new_TradingBot :: trading_bot where
  "new_TradingBot =
     \<lparr>technicalAnalysis = new_TechnicalAnalysis, lastArcPattern = None,
      lastCrossSignal = None, crossPrice = None\<rparr>"

text \<open>JavaScript's \<^verbatim>\<open>!v\<close> on a number or \<^verbatim>\<open>null\<close>: true for \<^verbatim>\<open>null\<close> and for \<^verbatim>\<open>0\<close>.\<close>

definition falsy :: "real option \<Rightarrow> bool" where
  "falsy v = (case v of None \<Rightarrow> True | Some n \<Rightarrow> n = 0)"

definition checkTradeSignals ::
  "exchange_replies \<Rightarrow> real \<Rightarrow> real \<Rightarrow> real \<Rightarrow> trading_bot \<Rightarrow> trading_bot \<times> action list" where
  "checkTradeSignals ex ema5 ema50 currentPrice tbot =
     (let ta = technicalAnalysis tbot in
      case (previousEma5 ta, previousEma50 ta) of
        (Some prevEma5, Some prevEma50) \<Rightarrow>
          if prevEma5 = 0 \<or> prevEma50 = 0
          then (tbot\<lparr>technicalAnalysis := ta\<lparr>previousEma5 := Some ema5, previousEma50 := Some ema50\<rparr>\<rparr>, [])
          else
            (let priceAboveEmas = (currentPrice > ema5 \<and> currentPrice > ema50);
                 priceBelowEmas = (currentPrice < ema5 \<and> currentPrice < ema50);
                 hasEmaCross = ((prevEma5 > prevEma50 \<and> ema5 < ema50) \<or>
                                (prevEma5 < prevEma50 \<and> ema5 > ema50))
             in if priceAboveEmas \<or> priceBelowEmas \<or> hasEmaCross then
                  (case getCurrentPosition_reply ex of
                     Throws \<Rightarrow> (tbot, [])
                   | Returns position \<Rightarrow>
                       if position = Some short \<and> priceAboveEmas then
                         (if closePosition_returns ex
                          then (tbot\<lparr>lastCrossSignal := None\<rparr>, [ClosePosition currentPrice])
                          else (tbot, [ClosePosition currentPrice]))
                       else if position = Some long \<and> priceBelowEmas then
                         (if closePosition_returns ex
                          then (tbot\<lparr>lastCrossSignal := None\<rparr>, [ClosePosition currentPrice])
                          else (tbot, [ClosePosition currentPrice]))
                       else if position = None \<and> hasEmaCross then
                         (let currentSignal =
                                (if prevEma5 > prevEma50 \<and> ema5 < ema50 then Some DOWN_CROSS
                                 else if prevEma5 < prevEma50 \<and> ema5 > ema50 then Some UP_CROSS
                                 else None);
                              tbot1 = (if currentSignal \<noteq> None
                                      then tbot\<lparr>crossPrice := Some currentPrice\<rparr> else tbot)
                          in if currentSignal \<noteq> None \<and> currentSignal \<noteq> lastCrossSignal tbot1 then
                               (let newPositionType =
                                      (if currentSignal = Some DOWN_CROSS then short else long)
                                in if openPosition_returns ex
                                   then (tbot1\<lparr>lastCrossSignal := currentSignal\<rparr>,
                                         [OpenPosition newPositionType currentPrice])
                                   else (tbot1, [OpenPosition newPositionType currentPrice]))
                             else (tbot1, []))
                       else (tbot, []))
                else (tbot, []))
      | _ \<Rightarrow> (tbot\<lparr>technicalAnalysis := ta\<lparr>previousEma5 := Some ema5, previousEma50 := Some ema50\<rparr>\<rparr>, []))"

text \<open>
  \<^verbatim>\<open>[...emaValues].sort((a, b) => pattern === 'TOP' ? b - a : a - b)\<close>: descending for a
  top, ascending for a bottom; \<^verbatim>\<open>sorted[1]\<close> is \<^verbatim>\<open>undefined\<close> when there are fewer than
  two values.
\<close>

definition sortedEmaValues :: "arc_pattern \<Rightarrow> real list \<Rightarrow> real list" where
  "sortedEmaValues pattern emaValues = (if pattern = TOP then rev (sort emaValues) else sort emaValues)"

definition secondExtreme :: "arc_pattern \<Rightarrow> real list \<Rightarrow> real option" where
  "secondExtreme pattern emaValues =
     (if length emaValues < 2 then None else Some (sortedEmaValues pattern emaValues ! 1))"

text \<open>
  \<^verbatim>\<open>handleArcPattern(pattern, currentPrice, ema5, ema50)\<close>. It changes no field of the bot
  but \<^verbatim>\<open>allowAddOrder\<close>, so the model returns the attempted orders only. A comparison
  with \<^verbatim>\<open>NaN\<close> (from \<^verbatim>\<open>Math.abs(currentPrice - undefined)\<close>) is false.
\<close>

definition handleArcPattern ::
  "config \<Rightarrow> exchange_replies \<Rightarrow> arc_pattern \<Rightarrow> real \<Rightarrow> real \<Rightarrow> real \<Rightarrow> trading_bot \<Rightarrow> action list" where
  "handleArcPattern cfg ex pattern currentPrice ema5 ema50 tbot =
     (let emaValues = ema5History (technicalAnalysis tbot);
          hasBreakout = (if pattern = TOP then ema5 < ema50 else ema5 > ema50);
          trade =
            (if pattern = TOP \<and> Some pattern \<noteq> lastArcPattern tbot then
               (case getCurrentPosition_reply ex of
                  Throws \<Rightarrow> []
                | Returns position \<Rightarrow>
                    (if position = Some long then
                       (if closePosition_returns ex
                        then ClosePosition currentPrice #
                             (if position \<noteq> Some short then [OpenPosition short currentPrice] else [])
                        else [ClosePosition currentPrice])
                     else (if position \<noteq> Some short then [OpenPosition short currentPrice] else [])))
             else if pattern = BOTTOM \<and> Some pattern \<noteq> lastArcPattern tbot then
               (case getCurrentPosition_reply ex of
                  Throws \<Rightarrow> []
                | Returns position \<Rightarrow>
                    (if position = Some short then
                       (if closePosition_returns ex
                        then ClosePosition currentPrice #
                             (if position \<noteq> Some long then [OpenPosition long currentPrice] else [])
                        else [ClosePosition currentPrice])
                     else (if position \<noteq> Some long then [OpenPosition long currentPrice] else [])))
             else [])
      in if hasBreakout then
           (case crossPrice tbot of
              None \<Rightarrow> []
            | Some cp \<Rightarrow>
                if cp = 0 then []
                else if \<bar>currentPrice - cp\<bar> > maxPriceDiff cfg then []
                else (case secondExtreme pattern emaValues of
                        None \<Rightarrow> trade
                      | Some se \<Rightarrow>
                          if \<bar>currentPrice - se\<bar> > maxExtremeDiff cfg then [] else trade))
         else trade)"

text \<open>
  Stream messages. The single-letter keys of the kline object carry a prefix here
  (\<^verbatim>\<open>k.c\<close> is \<open>k_c\<close>); prices are the numbers \<^verbatim>\<open>parseFloat\<close> reads from them.
\<close>

record kline =
  k_t :: nat
  k_T :: nat
  k_s :: string
  k_i :: string
  k_o :: real
  k_h :: real
  k_l :: real
  k_c :: real
  k_v :: real
  k_x :: bool

record kline_message =
  msg_e :: string
  msg_k :: kline

text \<open>
  \<^verbatim>\<open>handleKline(message)\<close>. The trace tags each attempted order with the function that
  issued it. The first answers are those \<^verbatim>\<open>checkTradeSignals\<close> receives, the second
  those \<^verbatim>\<open>handleArcPattern\<close> receives.
\<close>

datatype issuer = CheckTradeSignals | HandleArcPattern

definition handleKline ::
  "config \<Rightarrow> exchange_replies \<Rightarrow> exchange_replies \<Rightarrow> kline_message \<Rightarrow> trading_bot
     \<Rightarrow> trading_bot \<times> (issuer \<times> action) list" where
  "handleKline cfg ex_cross ex_arc message tbot =
     (if msg_e message \<noteq> ''kline'' then (tbot, [])
      else
        (let kline = msg_k message;
             currentPrice = k_c kline
         in case calculateEMAs cfg (technicalAnalysis tbot) currentPrice of
              (Some ema5, Some ema50) \<Rightarrow>
                if ema5 = 0 \<or> ema50 = 0 then (tbot, [])
                else if k_x kline then
                  (tbot\<lparr>technicalAnalysis :=
                         updateEmaHistory cfg ema5 ema50
                           (addPrice cfg currentPrice None (technicalAnalysis tbot))\<rparr>, [])
                else
                  (let tbot1 = tbot\<lparr>technicalAnalysis := updateLastEma ema5 ema50 (technicalAnalysis tbot)\<rparr>;
                       (tbot2, cross_actions) = checkTradeSignals ex_cross ema5 ema50 currentPrice tbot1;
                       arcPattern = checkArcPattern cfg (technicalAnalysis tbot2) ema5 ema50
                   in case arcPattern of
                        None \<Rightarrow> (tbot2, map (Pair CheckTradeSignals) cross_actions)
                      | Some pat \<Rightarrow>
                          if arcPattern \<noteq> lastArcPattern tbot2 then
                            (tbot2\<lparr>lastArcPattern := arcPattern\<rparr>,
                             map (Pair CheckTradeSignals) cross_actions @
                             map (Pair HandleArcPattern)
                               (handleArcPattern cfg ex_arc pat currentPrice ema5 ema50 tbot2))
                          else (tbot2, map (Pair CheckTradeSignals) cross_actions))
            | _ \<Rightarrow> (tbot, [])))"

text \<open>The signal a crossover open stands for.\<close>

fun signal_of :: "position_type \<Rightarrow> cross_signal" where
  "signal_of long = UP_CROSS"
| "signal_of short = DOWN_CROSS"

section \<open>services/webSocketManager.js\<close>

text \<open>
  The manager's state, together with what the JavaScript runtime holds for it: the
  timers that are armed (whether or not the manager kept their handle) and the trace
  of the calls the manager makes on its collaborators (the REST client, the
  \<^verbatim>\<open>onMessage\<close> callback, the transport and the process). \<^verbatim>\<open>this.ws\<close> is \<^term>\<open>None\<close>
  for \<^verbatim>\<open>null\<close> and otherwise carries the socket's \<^verbatim>\<open>readyState\<close>, which the transport
  changes. Logging is left out: it changes no state.
\<close>

datatype ready_state = CONNECTING | OPEN | CLOSING | CLOSED

datatype timer_kind = PingTick | PongTimeoutTick | MonitorTick | ReconnectResume

record timer =
  timer_id :: nat
  timer_kind :: timer_kind
  timer_delay :: real
  timer_repeats :: bool

text \<open>A kline array of the REST answer: \<^verbatim>\<open>kline[0]\<close> to \<^verbatim>\<open>kline[6]\<close>.\<close>

record raw_kline =
  kl_openTime :: nat
  kl_open :: real
  kl_high :: real
  kl_low :: real
  kl_close :: real
  kl_volume :: real
  kl_closeTime :: nat

text \<open>A control frame: method, \<^verbatim>\<open>params\<close> and \<^verbatim>\<open>id\<close>.\<close>

datatype frame = SUBSCRIBE "string list" int | UNSUBSCRIBE "string list" int

datatype call =
    GetHistoricalKlines string string nat
  | OnMessage kline_message
  | NewWebSocket string
  | WsSend frame
  | WsPing
  | WsPong
  | WsClose
  | WsTerminate
  | ProcessExit nat

datatype js_error = TypeError

record ws_manager =
  ws :: "ready_state option"
  pingInterval :: "nat option"
  pongTimeout :: "nat option"
  reconnectAttempts :: nat
  isReconnecting :: bool
  lastMessageTime :: int
  subscriptions :: "string list"
  timers :: "timer list"
  next_timer :: nat
  calls :: "call list"

text \<open>The constructor, called at time \<open>now\<close>.\<close>

definition new_WebSocketManager :: "int \<Rightarrow> ws_manager" where
  "new_WebSocketManager now =
     \<lparr>ws = None, pingInterval = None, pongTimeout = None, reconnectAttempts = 0,
      isReconnecting = False, lastMessageTime = now, subscriptions = [],
      timers = [], next_timer = 0, calls = []\<rparr>"

text \<open>\<^verbatim>\<open>setInterval\<close>/\<^verbatim>\<open>setTimeout\<close> arm a timer and return its handle;
  \<^verbatim>\<open>clearInterval\<close>/\<^verbatim>\<open>clearTimeout\<close> disarm the timer of a handle.\<close>

definition arm_timer :: "timer_kind \<Rightarrow> real \<Rightarrow> bool \<Rightarrow> ws_manager \<Rightarrow> nat \<times> ws_manager" where
  "arm_timer kind delay repeats s =
     (next_timer s,
      s\<lparr>timers := timers s @
           [\<lparr>timer_id = next_timer s, timer_kind = kind, timer_delay = delay, timer_repeats = repeats\<rparr>],
        next_timer := Suc (next_timer s)\<rparr>)"

definition clear_timer :: "nat \<Rightarrow> ws_manager \<Rightarrow> ws_manager" where
  "clear_timer h s = s\<lparr>timers := filter (\<lambda>t. timer_id t \<noteq> h) (timers s)\<rparr>"

definition emit :: "call \<Rightarrow> ws_manager \<Rightarrow> ws_manager" where
  "emit c s = s\<lparr>calls := calls s @ [c]\<rparr>"

definition cleanup :: "ws_manager \<Rightarrow> ws_manager" where
  "cleanup s =
     (let s1 = (case pingInterval s of
                  None \<Rightarrow> s
                | Some h \<Rightarrow> (clear_timer h s)\<lparr>pingInterval := None\<rparr>)
      in case pongTimeout s1 of
           None \<Rightarrow> s1
         | Some h \<Rightarrow> (clear_timer h s1)\<lparr>pongTimeout := None\<rparr>)"

definition setupHeartbeat :: "config \<Rightarrow> ws_manager \<Rightarrow> ws_manager" where
  "setupHeartbeat cfg s =
     (let (h, s1) = arm_timer PingTick (cfg_pingInterval cfg) True (cleanup s)
      in s1\<lparr>pingInterval := Some h\<rparr>)"

text \<open>\<^verbatim>\<open>setupConnectionMonitor\<close> arms the 30-second watchdog and drops the handle.\<close>

definition setupConnectionMonitor :: "ws_manager \<Rightarrow> ws_manager" where
  "setupConnectionMonitor s = snd (arm_timer MonitorTick 30000 True s)"

text \<open>The delay expression of \<^verbatim>\<open>handleReconnect\<close>, for the attempt number after the
  increment.\<close>

definition reconnect_delay :: "config \<Rightarrow> nat \<Rightarrow> real" where
  "reconnect_delay cfg attempts = min (reconnectDelay cfg * 2 ^ (attempts - 1)) 30000"

text \<open>
  \<^verbatim>\<open>handleReconnect\<close> up to its \<^verbatim>\<open>await\<close>: the rest (\<^verbatim>\<open>this.connect()\<close>) runs when the
  \<open>ReconnectResume\<close> timer fires.
\<close>

definition handleReconnect :: "config \<Rightarrow> ws_manager \<Rightarrow> ws_manager" where
  "handleReconnect cfg s =
     (if isReconnecting s then s
      else
        (let s1 = s\<lparr>isReconnecting := True\<rparr>
         in if reconnectAttempts s1 < maxReconnectAttempts cfg then
              (let s2 = s1\<lparr>reconnectAttempts := reconnectAttempts s1 + 1\<rparr>;
                   delay = reconnect_delay cfg (reconnectAttempts s2)
               in snd (arm_timer ReconnectResume delay False s2))
            else emit (ProcessExit 1) (s1\<lparr>isReconnecting := False\<rparr>)))"

text \<open>
  \<^verbatim>\<open>String.prototype.toLowerCase\<close> on ASCII: the letters \<^verbatim>\<open>A\<close> to \<^verbatim>\<open>Z\<close> (codes 65 to
  90) move up by 32, which sets bit 5 of the code; every other character stays.
\<close>

fun lower_char :: "char \<Rightarrow> char" where
  "lower_char (Char b0 b1 b2 b3 b4 b5 b6 b7) =
     (if 65 \<le> (of_char (Char b0 b1 b2 b3 b4 b5 b6 b7) :: nat) \<and>
         (of_char (Char b0 b1 b2 b3 b4 b5 b6 b7) :: nat) \<le> 90
      then Char b0 b1 b2 b3 b4 True b6 b7
      else Char b0 b1 b2 b3 b4 b5 b6 b7)"

definition toLowerCase :: "string \<Rightarrow> string" where
  "toLowerCase str = map lower_char str"

definition wsEndpoint :: "config \<Rightarrow> string" where
  "wsEndpoint cfg = wsUrl cfg @ ''/'' @ toLowerCase (symbol cfg) @ ''@kline_'' @ interval cfg"

definition formattedKline :: "config \<Rightarrow> raw_kline \<Rightarrow> kline_message" where
  "formattedKline cfg kl =
     \<lparr>msg_e = ''kline'',
      msg_k = \<lparr>k_t = kl_openTime kl, k_T = kl_closeTime kl, k_s = symbol cfg, k_i = interval cfg,
               k_o = kl_open kl, k_h = kl_high kl, k_l = kl_low kl, k_c = kl_close kl,
               k_v = kl_volume kl, k_x = True\<rparr>\<rparr>"

text \<open>
  \<^verbatim>\<open>connect()\<close>, given the answer of \<^verbatim>\<open>getHistoricalKlines\<close>. \<^verbatim>\<open>klines.slice(0, -1)\<close> is
  \<^term>\<open>butlast\<close>. The handlers \<^verbatim>\<open>setupWebSocketHandlers\<close> registers are the event
  functions below.
\<close>

definition connect :: "config \<Rightarrow> raw_kline list reply \<Rightarrow> ws_manager \<Rightarrow> ws_manager" where
  "connect cfg klines_reply s =
     (let s0 = emit (GetHistoricalKlines (symbol cfg) (interval cfg) 100) s
      in case klines_reply of
           Throws \<Rightarrow> handleReconnect cfg s0
         | Returns klines \<Rightarrow>
             (let closedKlines = butlast klines;
                  s1 = foldl (\<lambda>st kl. emit (OnMessage (formattedKline cfg kl)) st) s0 closedKlines;
                  s2 = emit (NewWebSocket (wsEndpoint cfg)) (s1\<lparr>ws := Some CONNECTING\<rparr>);
                  s3 = setupHeartbeat cfg s2
              in setupConnectionMonitor s3))"

text \<open>\<^verbatim>\<open>Set.prototype.add\<close> and \<^verbatim>\<open>delete\<close> on a set kept in insertion order.\<close>

definition set_add :: "'a \<Rightarrow> 'a list \<Rightarrow> 'a list" where
  "set_add c cs = (if c \<in> set cs then cs else cs @ [c])"

definition set_delete :: "'a \<Rightarrow> 'a list \<Rightarrow> 'a list" where
  "set_delete c cs = removeAll c cs"

text \<open>
  \<^verbatim>\<open>subscribe(channel)\<close> and \<^verbatim>\<open>unsubscribe(channel)\<close> at time \<open>now\<close>. Reading
  \<^verbatim>\<open>this.ws.readyState\<close> throws a \<^verbatim>\<open>TypeError\<close> while \<^verbatim>\<open>this.ws\<close> is \<^verbatim>\<open>null\<close>; a
  function that can throw returns the state it leaves behind and the exception, if any.
\<close>

definition subscribe :: "string \<Rightarrow> int \<Rightarrow> ws_manager \<Rightarrow> ws_manager \<times> js_error option" where
  "subscribe channel now s =
     (case ws s of
        None \<Rightarrow> (s, Some TypeError)
      | Some readyState \<Rightarrow>
          if readyState = OPEN
          then ((emit (WsSend (SUBSCRIBE [channel] now)) s)
                  \<lparr>subscriptions := set_add channel (subscriptions s)\<rparr>, None)
          else (s, None))"

definition unsubscribe :: "string \<Rightarrow> int \<Rightarrow> ws_manager \<Rightarrow> ws_manager \<times> js_error option" where
  "unsubscribe channel now s =
     (case ws s of
        None \<Rightarrow> (s, Some TypeError)
      | Some readyState \<Rightarrow>
          if readyState = OPEN
          then ((emit (WsSend (UNSUBSCRIBE [channel] now)) s)
                  \<lparr>subscriptions := set_delete channel (subscriptions s)\<rparr>, None)
          else (s, None))"

definition resubscribe :: "int \<Rightarrow> ws_manager \<Rightarrow> ws_manager \<times> js_error option" where
  "resubscribe now s =
     (if length (subscriptions s) > 0 then
        (case ws s of
           None \<Rightarrow> (s, Some TypeError)
         | Some readyState \<Rightarrow> (emit (WsSend (SUBSCRIBE (subscriptions s) now)) s, None))
      else (s, None))"

text \<open>\<^verbatim>\<open>handleOpen\<close>; \<open>now\<close> and \<open>now'\<close> are its two readings of the clock.\<close>

definition handleOpen :: "int \<Rightarrow> int \<Rightarrow> ws_manager \<Rightarrow> ws_manager \<times> js_error option" where
  "handleOpen now now' s =
     resubscribe now' (s\<lparr>reconnectAttempts := 0, isReconnecting := False, lastMessageTime := now\<rparr>)"

definition handleClose :: "config \<Rightarrow> ws_manager \<Rightarrow> ws_manager" where
  "handleClose cfg s =
     (let s1 = cleanup s
      in if \<not> isReconnecting s1 then handleReconnect cfg s1 else s1)"

definition handleError :: "ws_manager \<Rightarrow> ws_manager \<times> js_error option" where
  "handleError s =
     (let s1 = cleanup s
      in case ws s1 of None \<Rightarrow> (s1, Some TypeError) | Some readyState \<Rightarrow> (emit WsClose s1, None))"

definition handlePong :: "ws_manager \<Rightarrow> ws_manager" where
  "handlePong s =
     (case pongTimeout s of
        None \<Rightarrow> s
      | Some h \<Rightarrow> (clear_timer h s)\<lparr>pongTimeout := None\<rparr>)"

definition close :: "ws_manager \<Rightarrow> ws_manager" where
  "close s =
     (let s1 = cleanup s
      in case ws s1 of
           None \<Rightarrow> s1
         | Some readyState \<Rightarrow> (emit WsClose s1)\<lparr>ws := None\<rparr>)"

text \<open>The callbacks of the three timers the manager arms besides the reconnect delay.\<close>

definition pingTick :: "config \<Rightarrow> ws_manager \<Rightarrow> ws_manager \<times> js_error option" where
  "pingTick cfg s =
     (case ws s of
        None \<Rightarrow> (s, Some TypeError)
      | Some readyState \<Rightarrow>
          if readyState = OPEN then
            (let (h, s1) = arm_timer PongTimeoutTick (cfg_pongTimeout cfg) False (emit WsPing s)
             in (s1\<lparr>pongTimeout := Some h\<rparr>, None))
          else (s, None))"

definition pongTimeoutTick :: "ws_manager \<Rightarrow> ws_manager \<times> js_error option" where
  "pongTimeoutTick s =
     (case ws s of None \<Rightarrow> (s, Some TypeError) | Some readyState \<Rightarrow> (emit WsTerminate s, None))"

definition monitorTick :: "int \<Rightarrow> ws_manager \<Rightarrow> ws_manager \<times> js_error option" where
  "monitorTick now s =
     (let messageAge = now - lastMessageTime s
      in if messageAge > 120000 then
           (case ws s of
              None \<Rightarrow> (s, Some TypeError)
            | Some readyState \<Rightarrow>
                if readyState = OPEN then (emit WsTerminate s, None) else (s, None))
         else (s, None))"

text \<open>
  The runtime fires an armed timer \<open>t\<close>: a one-shot timer is disarmed first, then the
  callback of its kind runs; the callback of the reconnect delay is the rest of
  \<^verbatim>\<open>handleReconnect\<close>, the call of \<^verbatim>\<open>connect()\<close>. A timer that is not armed does not
  fire (\<^term>\<open>None\<close>).
\<close>

definition fire_timer ::
  "config \<Rightarrow> int \<Rightarrow> raw_kline list reply \<Rightarrow> timer \<Rightarrow> ws_manager
     \<Rightarrow> (ws_manager \<times> js_error option) option" where
  "fire_timer cfg now klines_reply t s =
     (if t \<in> set (timers s) then
        (let s1 = (if timer_repeats t then s else clear_timer (timer_id t) s)
         in Some (case timer_kind t of
                    PingTick \<Rightarrow> pingTick cfg s1
                  | PongTimeoutTick \<Rightarrow> pongTimeoutTick s1
                  | MonitorTick \<Rightarrow> monitorTick now s1
                  | ReconnectResume \<Rightarrow> (connect cfg klines_reply s1, None)))
      else None)"

text \<open>
  What can happen to a manager: a call of its methods, an event of its socket, or one
  of its armed timers firing. A handler that throws leaves its state behind.
  \<^verbatim>\<open>handleMessage\<close> and \<^verbatim>\<open>handlePing\<close> are left out: they write neither
  \<^verbatim>\<open>isReconnecting\<close> nor \<^verbatim>\<open>reconnectAttempts\<close> and arm no timer.
\<close>

datatype ws_event =
    CallConnect "raw_kline list reply"
  | SocketOpen int int
  | SocketClose
  | SocketError
  | SocketPong
  | TimerFires timer int "raw_kline list reply"
  | CallSubscribe string int
  | CallUnsubscribe string int
  | CallClose

fun ws_step :: "config \<Rightarrow> ws_manager \<Rightarrow> ws_event \<Rightarrow> ws_manager" where
  "ws_step cfg s (CallConnect klines_reply) = connect cfg klines_reply s"
| "ws_step cfg s (SocketOpen now now') = fst (handleOpen now now' s)"
| "ws_step cfg s SocketClose = handleClose cfg s"
| "ws_step cfg s SocketError = fst (handleError s)"
| "ws_step cfg s SocketPong = handlePong s"
| "ws_step cfg s (TimerFires t now klines_reply) =
     (case fire_timer cfg now klines_reply t s of None \<Rightarrow> s | Some r \<Rightarrow> fst r)"
| "ws_step cfg s (CallSubscribe channel now) = fst (subscribe channel now s)"
| "ws_step cfg s (CallUnsubscribe channel now) = fst (unsubscribe channel now s)"
| "ws_step cfg s CallClose = close s"

definition ws_run :: "config \<Rightarrow> ws_manager \<Rightarrow> ws_event list \<Rightarrow> ws_manager" where
  "ws_run cfg s evs = foldl (ws_step cfg) s evs"

section \<open>services/tradingBot.js: start-up\<close>

text \<open>
  \<^verbatim>\<open>initializeHistoricalData()\<close>, given the klines the REST client returned: every close
  is added, the EMAs are computed with the last close as the current price, and one
  history update follows when both are truthy. On an empty answer
  \<^verbatim>\<open>klines[klines.length - 1][4]\<close> throws.
\<close>

definition initializeHistoricalData ::
  "config \<Rightarrow> raw_kline list \<Rightarrow> trading_bot \<Rightarrow> trading_bot \<times> js_error option" where
  "initializeHistoricalData cfg klines tbot =
     (let ta1 = foldl (\<lambda>ta kl. addPrice cfg (kl_close kl) None ta) (technicalAnalysis tbot) klines
      in if klines = [] then (tbot, Some TypeError)
         else
           (let lastPrice = kl_close (last klines)
            in case calculateEMAs cfg ta1 lastPrice of
                 (Some ema5, Some ema50) \<Rightarrow>
                   if ema5 = 0 \<or> ema50 = 0 then (tbot\<lparr>technicalAnalysis := ta1\<rparr>, None)
                   else (tbot\<lparr>technicalAnalysis := updateEmaHistory cfg ema5 ema50 ta1\<rparr>, None)
               | _ \<Rightarrow> (tbot\<lparr>technicalAnalysis := ta1\<rparr>, None)))"

section \<open>Example states\<close>

text \<open>Five EMA5 points with a strict peak in the middle, EMA50 flat at 0.\<close>

definition arc_example :: technical_analysis where
  "arc_example =
     new_TechnicalAnalysis\<lparr>ema5History := [1, 2, 3, 2, 1], ema50History := [0, 0, 0, 0, 0]\<rparr>"

text \<open>Managers: one whose socket is still connecting, one whose socket is open with two
  subscriptions.\<close>

definition connecting_manager :: ws_manager where
  "connecting_manager = (new_WebSocketManager 0)\<lparr>ws := Some CONNECTING\<rparr>"

definition open_manager :: ws_manager where
  "open_manager = (new_WebSocketManager 0)\<lparr>ws := Some OPEN, subscriptions := [''a'', ''b'']\<rparr>"

text \<open>The watchdog timer \<^verbatim>\<open>setupConnectionMonitor\<close> arms, under the handle \<open>h\<close>.\<close>

definition monitor_timer :: "nat \<Rightarrow> timer" where
  "monitor_timer h =
     \<lparr>timer_id = h, timer_kind = MonitorTick, timer_delay = 30000, timer_repeats = True\<rparr>"

text \<open>A REST answer of three klines, the last one still open.\<close>

definition example_klines :: "raw_kline list" where
  "example_klines =
     [\<lparr>kl_openTime = 0, kl_open = 1, kl_high = 3, kl_low = 1, kl_close = 2, kl_volume = 10,
       kl_closeTime = 59\<rparr>,
      \<lparr>kl_openTime = 60, kl_open = 2, kl_high = 4, kl_low = 2, kl_close = 3, kl_volume = 10,
       kl_closeTime = 119\<rparr>,
      \<lparr>kl_openTime = 120, kl_open = 3, kl_high = 3, kl_low = 3, kl_close = 3, kl_volume = 1,
       kl_closeTime = 179\<rparr>]"

text \<open>
  Exchange answers: no position and every order call returning; a long position held;
  no position and \<^verbatim>\<open>openPosition\<close> throwing.
\<close>

definition flat_replies :: exchange_replies where
  "flat_replies = \<lparr>getCurrentPosition_reply = Returns None, closePosition_returns = True,
                    openPosition_returns = True\<rparr>"

definition long_replies :: exchange_replies where
  "long_replies = flat_replies\<lparr>getCurrentPosition_reply := Returns (Some long)\<rparr>"

definition failing_replies :: exchange_replies where
  "failing_replies = flat_replies\<lparr>openPosition_returns := False\<rparr>"

text \<open>A bot whose stored pair is EMA5 = 99 below EMA50 = 100, with no last signal.\<close>

definition crossing_bot :: trading_bot where
  "crossing_bot = new_TradingBot
     \<lparr>technicalAnalysis := new_TechnicalAnalysis\<lparr>previousEma5 := Some 99, previousEma50 := Some 100\<rparr>\<rparr>"

text \<open>
  A start-up under the repository's configuration: the REST client returns fifty klines
  that all closed at 50000. Messages are built from a price; a kline with one price
  throughout stands for one array of the REST answer.
\<close>

definition flat_kline :: "real \<Rightarrow> raw_kline" where
  "flat_kline price =
     \<lparr>kl_openTime = 0, kl_open = price, kl_high = price, kl_low = price, kl_close = price,
      kl_volume = 1, kl_closeTime = 3599999\<rparr>"

definition kline_msg :: "real \<Rightarrow> bool \<Rightarrow> kline_message" where
  "kline_msg price is_closed =
     \<lparr>msg_e = ''kline'',
      msg_k = \<lparr>k_t = 0, k_T = 3599999, k_s = ''BTCUSDT'', k_i = ''1h'', k_o = price, k_h = price,
               k_l = price, k_c = price, k_v = 1, k_x = is_closed\<rparr>\<rparr>"

definition started_bot :: trading_bot where
  "started_bot =
     fst (initializeHistoricalData repository_config (replicate 50 (flat_kline 50000)) new_TradingBot)"

text \<open>The exchange answering with a short position held.\<close>

definition short_replies :: exchange_replies where
  "short_replies = flat_replies\<lparr>getCurrentPosition_reply := Returns (Some short)\<rparr>"

text \<open>
  States the started bot reaches when each handler finishes before the next message is
  handled (one of the schedules the program can take). After a candle that closed at
  49000; then after a tick at 52000 on which \<^verbatim>\<open>openPosition\<close> threw.
\<close>

definition fallen_bot :: trading_bot where
  "fallen_bot =
     fst (handleKline repository_config flat_replies flat_replies (kline_msg 49000 True) started_bot)"

definition failed_open_bot :: trading_bot where
  "failed_open_bot =
     fst (handleKline repository_config failing_replies flat_replies (kline_msg 52000 False) fallen_bot)"




text \<open>The timer the first retry arms under the repository's configuration.\<close>

definition retry_timer :: timer where
  "retry_timer = \<lparr>timer_id = 0, timer_kind = ReconnectResume, timer_delay = 5000, timer_repeats = False\<rparr>"

section \<open>Properties of the indicator state\<close>

lemma length_ema_run: "length (ema_run k prev ps) = length ps"
  by (induction ps arbitrary: prev) (simp_all add: Let_def)

lemma last_ema_run:
  "last (prev # ema_run k prev ps) = foldl (\<lambda>e x. x * k + e * (1 - k)) prev ps"
  by (induction ps arbitrary: prev) (simp_all add: Let_def)

lemma length_EMA_calculate:
  "length (EMA_calculate period vals) = (if length vals < period then 0 else length vals - period + 1)"
  by (simp add: EMA_calculate_def Let_def length_ema_run)

lemma last_entry_EMA_calculate:
  "last_entry (EMA_calculate period vals) =
     (if length vals < period then None
      else Some (foldl (\<lambda>e x. x * (2 / (real period + 1)) + e * (1 - 2 / (real period + 1)))
                  (sum_list (take period vals) / real period) (drop period vals)))"
  unfolding last_entry_def EMA_calculate_def Let_def
  using last_ema_run by simp

text \<open>
  C8 (as amended): \<^verbatim>\<open>calculateEMAs\<close> returns both values \<^verbatim>\<open>null\<close> while the closing
  prices together with the current price are fewer than \<^verbatim>\<open>ema50Period\<close>; from
  \<^verbatim>\<open>ema50Period\<close> values on EMA50 is defined, and EMA5 is defined as well (given at
  least \<^verbatim>\<open>ema5Period\<close> values). A defined EMA of period \<open>p\<close> is the recurrence
  \<^verbatim>\<open>e' = x * (2/(p+1)) + e * (1 - 2/(p+1))\<close> run over the values after the first \<open>p\<close>,
  seeded with the average of the first \<open>p\<close>.
\<close>

theorem calculateEMAs_defined:
  "calculateEMAs cfg ta currentPrice =
     (let prices = closingPrices ta @ [currentPrice];
          ema = (\<lambda>period. foldl (\<lambda>e x. x * (2 / (real period + 1)) + e * (1 - 2 / (real period + 1)))
                  (sum_list (take period prices) / real period) (drop period prices))
      in if length prices < ema50Period cfg then (None, None)
         else (if length prices < ema5Period cfg then None else Some (ema (ema5Period cfg)),
               Some (ema (ema50Period cfg))))"
  unfolding calculateEMAs_def Let_def last_entry_EMA_calculate by simp

text \<open>With periods 5 and 50: 49 values give no EMA50, 50 values give both EMAs.\<close>

theorem calculateEMAs_defined_witness:
  "snd (calculateEMAs example_config (new_TechnicalAnalysis\<lparr>closingPrices := replicate 48 100\<rparr>) 100) = None \<and>
   fst (calculateEMAs example_config (new_TechnicalAnalysis\<lparr>closingPrices := replicate 49 100\<rparr>) 100) \<noteq> None \<and>
   snd (calculateEMAs example_config (new_TechnicalAnalysis\<lparr>closingPrices := replicate 49 100\<rparr>) 100) \<noteq> None"
  using calculateEMAs_defined [of example_config "new_TechnicalAnalysis\<lparr>closingPrices := replicate 48 100\<rparr>" 100]
        calculateEMAs_defined [of example_config "new_TechnicalAnalysis\<lparr>closingPrices := replicate 49 100\<rparr>" 100]
  by (simp add: example_config_def new_TechnicalAnalysis_def Let_def)

text \<open>
  C8 as stated fails for period 5: with ten values (nine closing prices and the current
  price) at least five values exist, yet EMA5 is \<^verbatim>\<open>null\<close>, because the guard on
  \<^verbatim>\<open>ema50Period\<close> returns before either EMA is computed.
\<close>

theorem calculateEMAs_ema5_counterexample:
  "ema5Period example_config \<le> length (replicate 9 (100::real) @ [100]) \<and>
   fst (calculateEMAs example_config (new_TechnicalAnalysis\<lparr>closingPrices := replicate 9 100\<rparr>) 100) = None"
  by (simp add: calculateEMAs_def example_config_def new_TechnicalAnalysis_def Let_def)

lemma updateEmaHistory_length:
  "length (ema5History (updateEmaHistory cfg e5 e50 ta)) =
     (if maxEma5History cfg < length (ema5History ta) + 2
      then length (ema5History ta) + 1 else length (ema5History ta) + 2)"
  "length (ema50History (updateEmaHistory cfg e5 e50 ta)) =
     (if maxEma5History cfg < length (ema50History ta) + 2
      then length (ema50History ta) + 1 else length (ema50History ta) + 2)"
  by (simp_all add: updateEmaHistory_def Let_def)

lemma updateEmaHistory_grows:
  "length (ema5History ta) < length (ema5History (updateEmaHistory cfg e5 e50 ta))"
  by (simp add: updateEmaHistory_length)

text \<open>
  C2: each closed-candle update should append one entry to each history and keep both
  within \<^verbatim>\<open>maxEma5History\<close>. The code pushes every value twice and shifts at most once:
  from the empty histories one update leaves two entries in each, and with a maximum
  of 20 the eleventh update leaves 21 entries.
\<close>

theorem updateEmaHistory_doubles:
  "ema5History (updateEmaHistory example_config 1 2 new_TechnicalAnalysis) = [1, 1] \<and>
   ema50History (updateEmaHistory example_config 1 2 new_TechnicalAnalysis) = [2, 2] \<and>
   length (ema5History ((updateEmaHistory example_config 1 2 ^^ 11) new_TechnicalAnalysis)) = 21 \<and>
   maxEma5History example_config = 20"
  by (simp add: updateEmaHistory_def example_config_def new_TechnicalAnalysis_def Let_def
        eval_nat_numeral)

text \<open>
  C3 (as amended): with at least five entries in both histories, \<^verbatim>\<open>checkArcPattern\<close>
  returns \<^verbatim>\<open>TOP\<close> exactly when the middle point of the last five EMA5 values is strictly
  greater than its four neighbours, the current EMA5 is \<^emph>\<open>above\<close> the current EMA50 and
  \<^verbatim>\<open>|middleEma5 - middleEma50| >= minEmaDiff\<close>; \<^verbatim>\<open>BOTTOM\<close> exactly in the mirrored case
  (strict minimum, current EMA5 below EMA50); and it returns no signal when the middle
  point ties a neighbour.
\<close>

theorem checkArcPattern_iff:
  assumes "5 \<le> length (ema5History ta)" and "5 \<le> length (ema50History ta)"
  shows "(let w5 = slice_last5 (ema5History ta); w50 = slice_last5 (ema50History ta)
          in (checkArcPattern cfg ta currentEma5 currentEma50 = Some TOP \<longleftrightarrow>
                w5 ! 2 > w5 ! 0 \<and> w5 ! 2 > w5 ! 1 \<and> w5 ! 2 > w5 ! 3 \<and> w5 ! 2 > w5 ! 4 \<and>
                currentEma5 > currentEma50 \<and> minEmaDiff cfg \<le> \<bar>w5 ! 2 - w50 ! 2\<bar>) \<and>
             (checkArcPattern cfg ta currentEma5 currentEma50 = Some BOTTOM \<longleftrightarrow>
                w5 ! 2 < w5 ! 0 \<and> w5 ! 2 < w5 ! 1 \<and> w5 ! 2 < w5 ! 3 \<and> w5 ! 2 < w5 ! 4 \<and>
                currentEma5 < currentEma50 \<and> minEmaDiff cfg \<le> \<bar>w5 ! 2 - w50 ! 2\<bar>) \<and>
             (w5 ! 2 = w5 ! 0 \<or> w5 ! 2 = w5 ! 1 \<or> w5 ! 2 = w5 ! 3 \<or> w5 ! 2 = w5 ! 4 \<longrightarrow>
                checkArcPattern cfg ta currentEma5 currentEma50 = None))"
  using assms unfolding checkArcPattern_def Let_def by auto

text \<open>A strict peak with EMA5 above EMA50 is a top; the same window with a tied middle
  point is no signal.\<close>

theorem checkArcPattern_iff_witness:
  "checkArcPattern example_config arc_example 2 1 = Some TOP \<and>
   checkArcPattern example_config (arc_example\<lparr>ema5History := [1, 3, 3, 2, 1]\<rparr>) 2 1 = None"
  using checkArcPattern_iff [of arc_example example_config 2 1]
        checkArcPattern_iff [of "arc_example\<lparr>ema5History := [1, 3, 3, 2, 1]\<rparr>" example_config 2 1]
  by (simp add: arc_example_def new_TechnicalAnalysis_def example_config_def slice_last5_def Let_def)

text \<open>
  C3 as stated fails: with the strict peak and the current EMA5 (1) below the current
  EMA50 (2), the rule as the specification words it gives a top, the code gives no signal.
\<close>

theorem checkArcPattern_orientation_counterexample:
  "spec_checkArcPattern example_config arc_example 1 2 = Some TOP \<and>
   checkArcPattern example_config arc_example 1 2 = None"
  by (simp add: spec_checkArcPattern_def checkArcPattern_def arc_example_def
        new_TechnicalAnalysis_def example_config_def slice_last5_def Let_def)

text \<open>
  Evaluating the EMAs when the closing prices start with at least \<^verbatim>\<open>ema50Period\<close> equal
  values: both EMAs are the recurrence run from that value over the later prices.
\<close>

lemma flat_fold:
  "foldl (\<lambda>e x. x * k + e * (1 - k)) c (replicate m c @ ys) =
   foldl (\<lambda>e x. x * k + e * (1 - k)) (c::real) ys"
  by (induction m) (simp_all add: algebra_simps)

lemma calculateEMAs_flat_prefix:
  assumes "closingPrices ta = replicate n c @ xs"
    and "0 < ema5Period cfg" and "ema5Period cfg \<le> ema50Period cfg" and "ema50Period cfg \<le> n"
  shows "calculateEMAs cfg ta price =
           (Some (foldl (\<lambda>e x. x * (2 / (real (ema5Period cfg) + 1)) +
                                 e * (1 - 2 / (real (ema5Period cfg) + 1))) c (xs @ [price])),
            Some (foldl (\<lambda>e x. x * (2 / (real (ema50Period cfg) + 1)) +
                                 e * (1 - 2 / (real (ema50Period cfg) + 1))) c (xs @ [price])))"
proof -
  have flat: "foldl (\<lambda>e x. x * k + e * (1 - k)) (sum_list (take p (replicate n c @ xs @ [price])) / real p)
                (drop p (replicate n c @ xs @ [price])) =
              foldl (\<lambda>e x. x * k + e * (1 - k)) c (xs @ [price])"
    if "0 < p" "p \<le> n" for p k
  proof -
    have t: "take p (replicate n c @ xs @ [price]) = replicate p c"
      using that by (simp add: min_def)
    have d: "drop p (replicate n c @ xs @ [price]) = replicate (n - p) c @ xs @ [price]"
      using that by simp
    have a: "sum_list (replicate p c) / real p = c"
      using that by (simp add: sum_list_replicate)
    show ?thesis unfolding t d a by (rule flat_fold)
  qed
  have entry: "last_entry (EMA_calculate p (replicate n c @ xs @ [price])) =
      Some (foldl (\<lambda>e x. x * (2 / (real p + 1)) + e * (1 - 2 / (real p + 1))) c (xs @ [price]))"
    if "0 < p" "p \<le> n" for p
  proof -
    have len: "\<not> length (replicate n c @ xs @ [price]) < p"
      using that by simp
    show ?thesis
      unfolding last_entry_EMA_calculate flat [OF that] using len by (simp only: if_False)
  qed
  have prices: "closingPrices ta @ [price] = replicate n c @ xs @ [price]"
    using assms(1) by simp
  have enough: "\<not> length (replicate n c @ xs @ [price]) < ema50Period cfg"
    using assms(4) by simp
  have p5: "0 < ema5Period cfg" "ema5Period cfg \<le> n" and p50: "0 < ema50Period cfg" "ema50Period cfg \<le> n"
    using assms by simp_all
  show ?thesis
    unfolding calculateEMAs_def Let_def prices entry [OF p5] entry [OF p50]
    using enough by (simp only: if_False)
qed

lemma foldl_addPrice_replicate:
  assumes "length (closingPrices ta) + n \<le> maxClosingPrices cfg"
  shows "foldl (\<lambda>ta kl. addPrice cfg (kl_close kl) None ta) ta (replicate n kl) =
           ta\<lparr>closingPrices := closingPrices ta @ replicate n (kl_close kl)\<rparr>"
  using assms
proof (induction n arbitrary: ta)
  case 0
  then show ?case by simp
next
  case (Suc n)
  have step: "addPrice cfg (kl_close kl) None ta = ta\<lparr>closingPrices := closingPrices ta @ [kl_close kl]\<rparr>"
    using Suc.prems by (simp add: addPrice_def Let_def)
  show ?case
    using Suc.IH [of "addPrice cfg (kl_close kl) None ta"] Suc.prems
    by (simp add: step replicate_app_Cons_same)
qed

section \<open>Properties of the connection manager\<close>

subsection \<open>Reconnecting\<close>

lemma handleReconnect_schedules:
  assumes "\<not> isReconnecting s" and "reconnectAttempts s < maxReconnectAttempts cfg"
  shows "handleReconnect cfg s =
           s\<lparr>isReconnecting := True, reconnectAttempts := reconnectAttempts s + 1,
             timers := timers s @
               [\<lparr>timer_id = next_timer s, timer_kind = ReconnectResume,
                 timer_delay = min (reconnectDelay cfg * 2 ^ reconnectAttempts s) 30000,
                 timer_repeats = False\<rparr>],
             next_timer := Suc (next_timer s)\<rparr>"
  using assms by (cases s) (simp add: handleReconnect_def arm_timer_def reconnect_delay_def Let_def)

lemma handleReconnect_busy: "isReconnecting s \<Longrightarrow> handleReconnect cfg s = s"
  by (simp add: handleReconnect_def)

text \<open>
  Only \<^verbatim>\<open>handleOpen\<close> clears \<^verbatim>\<open>isReconnecting\<close> on the retry path: a retry whose fetch
  fails, or whose socket closes before it opens, arms no further retry.
\<close>

lemma failed_retry_arms_nothing:
  assumes "isReconnecting s"
  shows "connect cfg Throws s = emit (GetHistoricalKlines (symbol cfg) (interval cfg) 100) s"
    and "timers (handleClose cfg s) = timers (cleanup s)"
  using assms
  by (simp_all add: connect_def handleClose_def handleReconnect_def emit_def cleanup_def
        clear_timer_def Let_def split: option.splits)

lemma reconnect_delay_mono:
  assumes "0 \<le> reconnectDelay cfg" and "j \<le> k"
  shows "reconnect_delay cfg j \<le> reconnect_delay cfg k"
proof -
  have "(2::real) ^ (j - 1) \<le> 2 ^ (k - 1)"
    using assms(2) by (intro power_increasing) auto
  then have "reconnectDelay cfg * 2 ^ (j - 1) \<le> reconnectDelay cfg * 2 ^ (k - 1)"
    using assms(1) by (rule mult_left_mono)
  then show ?thesis
    unfolding reconnect_delay_def by (rule min.mono) simp
qed

lemma reconnect_delay_capped: "reconnect_delay cfg k \<le> 30000"
  by (simp add: reconnect_delay_def)

lemma handleOpen_resets: "reconnectAttempts (fst (handleOpen now now' s)) = 0"
  by (simp add: handleOpen_def resubscribe_def emit_def split: option.splits)

text \<open>
  C7: a call of \<^verbatim>\<open>handleReconnect\<close> that retries makes the attempt \<open>k\<close> (the counter
  after the increment, \<open>k \<ge> 1\<close>) and arms the retry with the delay
  \<^verbatim>\<open>min(reconnectDelay * 2^(k-1), 30000)\<close>; with a non-negative \<^verbatim>\<open>reconnectDelay\<close> the
  delay does not decrease from one attempt number to a later one and it never exceeds
  the cap of 30000 ms; \<^verbatim>\<open>handleOpen\<close> sets the counter to 0.
\<close>

theorem backoff_delay:
  "(\<not> isReconnecting s \<and> reconnectAttempts s < maxReconnectAttempts cfg \<longrightarrow>
      (let k = reconnectAttempts s + 1; s' = handleReconnect cfg s
       in reconnectAttempts s' = k \<and>
          timers s' = timers s @
            [\<lparr>timer_id = next_timer s, timer_kind = ReconnectResume,
              timer_delay = min (reconnectDelay cfg * 2 ^ (k - 1)) 30000,
              timer_repeats = False\<rparr>] \<and>
          reconnect_delay cfg k = min (reconnectDelay cfg * 2 ^ (k - 1)) 30000)) \<and>
   (0 \<le> reconnectDelay cfg \<and> j \<le> k' \<longrightarrow> reconnect_delay cfg j \<le> reconnect_delay cfg k') \<and>
   reconnect_delay cfg k' \<le> 30000 \<and>
   reconnectAttempts (fst (handleOpen now now' s)) = 0"
  using handleReconnect_schedules [of s cfg] reconnect_delay_mono [of cfg j k']
    reconnect_delay_capped [of cfg k'] handleOpen_resets [of now now' s]
  by (simp add: Let_def reconnect_delay_def)

text \<open>With a base delay of 1000 ms: the first attempt waits 1000 ms, the third no longer
  than the seventh, and opening after the attempt sets the counter back to 0.\<close>

theorem backoff_delay_witness:
  "reconnectAttempts (handleReconnect example_config (new_WebSocketManager 0)) = 1 \<and>
   timers (handleReconnect example_config (new_WebSocketManager 0)) =
     [\<lparr>timer_id = 0, timer_kind = ReconnectResume, timer_delay = 1000, timer_repeats = False\<rparr>] \<and>
   reconnect_delay example_config 3 \<le> reconnect_delay example_config 7 \<and>
   reconnect_delay example_config 7 \<le> 30000 \<and>
   reconnectAttempts
     (fst (handleOpen 1 2 (handleReconnect example_config (new_WebSocketManager 0)))) = 0"
  using backoff_delay [where s = "new_WebSocketManager 0" and cfg = example_config
          and j = 3 and k' = 7]
        backoff_delay [where s = "handleReconnect example_config (new_WebSocketManager 0)"
          and now = 1 and now' = 2]
  by (simp add: Let_def new_WebSocketManager_def example_config_def)

subsection \<open>The trace of \<^verbatim>\<open>connect\<close>\<close>

lemma foldl_emit:
  "foldl (\<lambda>st x. st\<lparr>calls := calls st @ [f x]\<rparr>) s xs = s\<lparr>calls := calls s @ map f xs\<rparr>"
  by (induction xs arbitrary: s) simp_all

lemma calls_cleanup: "calls (cleanup s) = calls s"
  by (simp add: cleanup_def clear_timer_def Let_def split: option.splits)

lemma calls_clear_timer: "calls (clear_timer h s) = calls s"
  by (simp add: clear_timer_def)

lemma calls_connect:
  "calls (connect cfg (Returns klines) s) =
     calls s @ [GetHistoricalKlines (symbol cfg) (interval cfg) 100] @
     map (\<lambda>kl. OnMessage (formattedKline cfg kl)) (butlast klines) @
     [NewWebSocket (wsEndpoint cfg)]"
  by (simp add: connect_def Let_def setupConnectionMonitor_def setupHeartbeat_def arm_timer_def
        calls_cleanup emit_def foldl_emit split: prod.splits)

lemma fire_reconnect_timer:
  assumes "\<not> isReconnecting s" and "reconnectAttempts s < maxReconnectAttempts cfg"
  shows "fire_timer cfg now klines_reply (last (timers (handleReconnect cfg s))) (handleReconnect cfg s) =
           Some (connect cfg klines_reply
                   (clear_timer (next_timer s) (handleReconnect cfg s)), None)"
  using assms
  by (simp add: fire_timer_def handleReconnect_def arm_timer_def Let_def)

text \<open>
  C10: every \<^verbatim>\<open>connect()\<close> whose fetch succeeds, in whatever state the manager is,
  requests 100 klines, hands every kline but the last to \<^verbatim>\<open>onMessage\<close>, in order, as a
  \<^verbatim>\<open>kline\<close> event that carries the kline's times and prices and is marked closed
  (\<^verbatim>\<open>x: true\<close>), and only then opens the transport; two connects in a row deliver the
  history twice; and the timer a retrying \<^verbatim>\<open>handleReconnect\<close> arms runs exactly this
  \<^verbatim>\<open>connect()\<close> when it fires.
\<close>

theorem connect_replays_history:
  "(let replay = (\<lambda>klines. [GetHistoricalKlines (symbol cfg) (interval cfg) 100] @
                     map (\<lambda>kl. OnMessage
                            \<lparr>msg_e = ''kline'',
                             msg_k = \<lparr>k_t = kl_openTime kl, k_T = kl_closeTime kl, k_s = symbol cfg,
                                      k_i = interval cfg, k_o = kl_open kl, k_h = kl_high kl,
                                      k_l = kl_low kl, k_c = kl_close kl, k_v = kl_volume kl,
                                      k_x = True\<rparr>\<rparr>) (butlast klines) @
                     [NewWebSocket (wsUrl cfg @ ''/'' @ toLowerCase (symbol cfg) @ ''@kline_'' @ interval cfg)])
    in calls (connect cfg (Returns klines) s) = calls s @ replay klines \<and>
       calls (connect cfg (Returns klines') (connect cfg (Returns klines) s)) =
         calls s @ replay klines @ replay klines' \<and>
       (\<not> isReconnecting s \<and> reconnectAttempts s < maxReconnectAttempts cfg \<longrightarrow>
          map_option (\<lambda>r. (calls (fst r), snd r))
            (fire_timer cfg now (Returns klines) (last (timers (handleReconnect cfg s)))
               (handleReconnect cfg s)) = Some (calls s @ replay klines, None)))"
proof -
  have "calls (handleReconnect cfg s) = calls s"
    if "\<not> isReconnecting s" "reconnectAttempts s < maxReconnectAttempts cfg"
    using that by (simp add: handleReconnect_def arm_timer_def Let_def)
  then show ?thesis
    using fire_reconnect_timer [of s cfg now "Returns klines"]
    by (auto simp: Let_def calls_connect calls_clear_timer formattedKline_def wsEndpoint_def)
qed

theorem connect_replays_history_witness:
  "calls (connect repository_config (Returns example_klines) (new_WebSocketManager 0)) =
     [GetHistoricalKlines ''BTCUSDT'' ''1h'' 100,
      OnMessage \<lparr>msg_e = ''kline'',
                 msg_k = \<lparr>k_t = 0, k_T = 59, k_s = ''BTCUSDT'', k_i = ''1h'', k_o = 1, k_h = 3,
                          k_l = 1, k_c = 2, k_v = 10, k_x = True\<rparr>\<rparr>,
      OnMessage \<lparr>msg_e = ''kline'',
                 msg_k = \<lparr>k_t = 60, k_T = 119, k_s = ''BTCUSDT'', k_i = ''1h'', k_o = 2, k_h = 4,
                          k_l = 2, k_c = 3, k_v = 10, k_x = True\<rparr>\<rparr>,
      NewWebSocket ''wss://fstream.binance.com/ws/btcusdt@kline_1h''] \<and>
   map_option (\<lambda>r. (calls (fst r), snd r))
     (fire_timer repository_config 0 (Returns example_klines)
        (last (timers (handleReconnect repository_config (new_WebSocketManager 0))))
        (handleReconnect repository_config (new_WebSocketManager 0))) =
     Some ([GetHistoricalKlines ''BTCUSDT'' ''1h'' 100,
            OnMessage \<lparr>msg_e = ''kline'',
                       msg_k = \<lparr>k_t = 0, k_T = 59, k_s = ''BTCUSDT'', k_i = ''1h'', k_o = 1, k_h = 3,
                                k_l = 1, k_c = 2, k_v = 10, k_x = True\<rparr>\<rparr>,
            OnMessage \<lparr>msg_e = ''kline'',
                       msg_k = \<lparr>k_t = 60, k_T = 119, k_s = ''BTCUSDT'', k_i = ''1h'', k_o = 2, k_h = 4,
                                k_l = 2, k_c = 3, k_v = 10, k_x = True\<rparr>\<rparr>,
            NewWebSocket ''wss://fstream.binance.com/ws/btcusdt@kline_1h''], None)"
proof -
  let ?s = "new_WebSocketManager 0"
  let ?cfg = repository_config
  have pre: "\<not> isReconnecting ?s \<and> reconnectAttempts ?s < maxReconnectAttempts ?cfg"
    by (simp add: new_WebSocketManager_def repository_config_def)
  have rep: "calls ?s @ [GetHistoricalKlines (symbol ?cfg) (interval ?cfg) 100] @
        map (\<lambda>kl. OnMessage
               \<lparr>msg_e = ''kline'',
                msg_k = \<lparr>k_t = kl_openTime kl, k_T = kl_closeTime kl, k_s = symbol ?cfg,
                         k_i = interval ?cfg, k_o = kl_open kl, k_h = kl_high kl,
                         k_l = kl_low kl, k_c = kl_close kl, k_v = kl_volume kl,
                         k_x = True\<rparr>\<rparr>) (butlast example_klines) @
        [NewWebSocket (wsUrl ?cfg @ ''/'' @ toLowerCase (symbol ?cfg) @ ''@kline_'' @ interval ?cfg)] =
     [GetHistoricalKlines ''BTCUSDT'' ''1h'' 100,
      OnMessage \<lparr>msg_e = ''kline'',
                 msg_k = \<lparr>k_t = 0, k_T = 59, k_s = ''BTCUSDT'', k_i = ''1h'', k_o = 1, k_h = 3,
                          k_l = 1, k_c = 2, k_v = 10, k_x = True\<rparr>\<rparr>,
      OnMessage \<lparr>msg_e = ''kline'',
                 msg_k = \<lparr>k_t = 60, k_T = 119, k_s = ''BTCUSDT'', k_i = ''1h'', k_o = 2, k_h = 4,
                          k_l = 2, k_c = 3, k_v = 10, k_x = True\<rparr>\<rparr>,
      NewWebSocket ''wss://fstream.binance.com/ws/btcusdt@kline_1h'']"
    by (simp add: repository_config_def example_klines_def new_WebSocketManager_def toLowerCase_def)
  from connect_replays_history [of ?cfg example_klines ?s example_klines 0] pre
  show ?thesis
    unfolding Let_def rep by blast
qed

subsection \<open>Retries\<close>

text \<open>
  Along every sequence of calls, socket events and timer firings from a fresh manager,
  whenever \<^verbatim>\<open>isReconnecting\<close> is clear the attempt counter is 0, the counter never
  exceeds 1, and with a positive \<^verbatim>\<open>maxReconnectAttempts\<close> the branch of
  \<^verbatim>\<open>handleReconnect\<close> that handles exhausted attempts never runs.
\<close>

lemma reconnect_fields_cleanup:
  "isReconnecting (cleanup s) = isReconnecting s"
  "reconnectAttempts (cleanup s) = reconnectAttempts s"
  by (simp_all add: cleanup_def clear_timer_def Let_def split: option.splits)

lemma reconnect_invariant_handleReconnect:
  assumes "0 < maxReconnectAttempts cfg"
    and "\<not> isReconnecting s \<longrightarrow> reconnectAttempts s = 0" and "reconnectAttempts s \<le> 1"
    and "ProcessExit 1 \<notin> set (calls s)"
  shows "(\<not> isReconnecting (handleReconnect cfg s) \<longrightarrow> reconnectAttempts (handleReconnect cfg s) = 0) \<and>
         reconnectAttempts (handleReconnect cfg s) \<le> 1 \<and>
         ProcessExit 1 \<notin> set (calls (handleReconnect cfg s))"
  using assms by (auto simp: handleReconnect_def arm_timer_def Let_def)

lemma reconnect_invariant_connect:
  assumes "0 < maxReconnectAttempts cfg"
    and "\<not> isReconnecting s \<longrightarrow> reconnectAttempts s = 0" and "reconnectAttempts s \<le> 1"
    and "ProcessExit 1 \<notin> set (calls s)"
  shows "(\<not> isReconnecting (connect cfg r s) \<longrightarrow> reconnectAttempts (connect cfg r s) = 0) \<and>
         reconnectAttempts (connect cfg r s) \<le> 1 \<and>
         ProcessExit 1 \<notin> set (calls (connect cfg r s))"
proof (cases r)
  case Throws
  let ?s0 = "emit (GetHistoricalKlines (symbol cfg) (interval cfg) 100) s"
  have "connect cfg r s = handleReconnect cfg ?s0"
    using Throws by (simp add: connect_def Let_def)
  moreover have "(\<not> isReconnecting ?s0 \<longrightarrow> reconnectAttempts ?s0 = 0) \<and> reconnectAttempts ?s0 \<le> 1 \<and>
      ProcessExit 1 \<notin> set (calls ?s0)"
    using assms by (simp add: emit_def)
  ultimately show ?thesis
    using reconnect_invariant_handleReconnect [of cfg ?s0] assms(1) by simp
next
  case (Returns klines)
  have "isReconnecting (connect cfg r s) = isReconnecting s"
    "reconnectAttempts (connect cfg r s) = reconnectAttempts s"
    using Returns
    by (simp_all add: connect_def Let_def setupConnectionMonitor_def setupHeartbeat_def
          arm_timer_def reconnect_fields_cleanup emit_def foldl_emit split: prod.splits)
  moreover have "ProcessExit 1 \<notin> set (calls (connect cfg r s))"
    using Returns assms(4) by (auto simp: calls_connect)
  ultimately show ?thesis using assms by simp
qed

lemma reconnect_invariant_step:
  assumes "0 < maxReconnectAttempts cfg"
    and "\<not> isReconnecting s \<longrightarrow> reconnectAttempts s = 0" and "reconnectAttempts s \<le> 1"
    and "ProcessExit 1 \<notin> set (calls s)"
  shows "(\<not> isReconnecting (ws_step cfg s ev) \<longrightarrow> reconnectAttempts (ws_step cfg s ev) = 0) \<and>
         reconnectAttempts (ws_step cfg s ev) \<le> 1 \<and>
         ProcessExit 1 \<notin> set (calls (ws_step cfg s ev))"
proof (cases ev)
  case (CallConnect r)
  then show ?thesis using reconnect_invariant_connect [OF assms] by simp
next
  case (SocketOpen now now')
  then show ?thesis using assms(4)
    by (auto simp: handleOpen_def resubscribe_def emit_def split: option.splits)
next
  case SocketClose
  have c: "(\<not> isReconnecting (cleanup s) \<longrightarrow> reconnectAttempts (cleanup s) = 0) \<and>
      reconnectAttempts (cleanup s) \<le> 1 \<and> ProcessExit 1 \<notin> set (calls (cleanup s))"
    using assms by (simp add: reconnect_fields_cleanup calls_cleanup)
  show ?thesis
    using SocketClose c reconnect_invariant_handleReconnect [of cfg "cleanup s"] assms(1)
    by (simp add: handleClose_def Let_def)
next
  case SocketError
  then show ?thesis using assms
    by (auto simp: handleError_def Let_def emit_def reconnect_fields_cleanup calls_cleanup
          split: option.splits)
next
  case SocketPong
  then show ?thesis using assms
    by (auto simp: handlePong_def clear_timer_def split: option.splits)
next
  case (TimerFires t now r)
  show ?thesis
  proof (cases "t \<in> set (timers s)")
    case False
    then show ?thesis using TimerFires assms by (simp add: fire_timer_def)
  next
    case True
    let ?s1 = "if timer_repeats t then s else clear_timer (timer_id t) s"
    have s1: "(\<not> isReconnecting ?s1 \<longrightarrow> reconnectAttempts ?s1 = 0) \<and> reconnectAttempts ?s1 \<le> 1 \<and>
        ProcessExit 1 \<notin> set (calls ?s1)"
      using assms by (simp add: clear_timer_def)
    show ?thesis
    proof (cases "timer_kind t")
      case PingTick
      then show ?thesis using TimerFires True s1
        by (auto simp: fire_timer_def Let_def pingTick_def arm_timer_def emit_def clear_timer_def
              split: option.splits if_splits)
    next
      case PongTimeoutTick
      then show ?thesis using TimerFires True s1
        by (auto simp: fire_timer_def Let_def pongTimeoutTick_def emit_def clear_timer_def
              split: option.splits if_splits)
    next
      case MonitorTick
      then show ?thesis using TimerFires True s1
        by (auto simp: fire_timer_def Let_def monitorTick_def emit_def clear_timer_def
              split: option.splits if_splits)
    next
      case ReconnectResume
      then have "ws_step cfg s ev = connect cfg r ?s1"
        using TimerFires True by (simp add: fire_timer_def Let_def)
      then show ?thesis
        using reconnect_invariant_connect [of cfg ?s1 r] assms(1) s1 by simp
    qed
  qed
next
  case (CallSubscribe channel now)
  then show ?thesis using assms
    by (auto simp: subscribe_def emit_def split: option.splits)
next
  case (CallUnsubscribe channel now)
  then show ?thesis using assms
    by (auto simp: unsubscribe_def emit_def split: option.splits)
next
  case CallClose
  then show ?thesis using assms
    by (auto simp: close_def Let_def emit_def reconnect_fields_cleanup calls_cleanup
          split: option.splits)
qed

lemma reconnect_invariant_run:
  assumes "0 < maxReconnectAttempts cfg"
    and "\<not> isReconnecting s \<longrightarrow> reconnectAttempts s = 0" and "reconnectAttempts s \<le> 1"
    and "ProcessExit 1 \<notin> set (calls s)"
  shows "(\<not> isReconnecting (ws_run cfg s evs) \<longrightarrow> reconnectAttempts (ws_run cfg s evs) = 0) \<and>
         reconnectAttempts (ws_run cfg s evs) \<le> 1 \<and>
         ProcessExit 1 \<notin> set (calls (ws_run cfg s evs))"
  using assms(2-4)
proof (induction evs arbitrary: s)
  case Nil
  then show ?case by (simp add: ws_run_def)
next
  case (Cons ev evs)
  have "ws_run cfg s (ev # evs) = ws_run cfg (ws_step cfg s ev) evs"
    by (simp add: ws_run_def)
  then show ?case
    using Cons.IH [of "ws_step cfg s ev"]
      reconnect_invariant_step [OF assms(1) Cons.prems, of ev]
    by simp
qed

lemma exhaustion_unreachable:
  assumes "0 < maxReconnectAttempts cfg"
  shows "reconnectAttempts (ws_run cfg (new_WebSocketManager now) evs) \<le> 1 \<and>
         ProcessExit 1 \<notin> set (calls (ws_run cfg (new_WebSocketManager now) evs))"
  using reconnect_invariant_run [OF assms, of "new_WebSocketManager now" evs]
  by (simp add: new_WebSocketManager_def)

text \<open>
  C4: once the attempts exceed \<^verbatim>\<open>maxReconnectAttempts\<close> the manager should enter a
  terminal condition that is reported. Under the repository's configuration (at most
  5 attempts), when the first \<^verbatim>\<open>connect()\<close> fails and the retry fails as well, by its
  fetch throwing or by its socket failing before it opens, the manager is left with
  \<^verbatim>\<open>isReconnecting\<close> set and one attempt counted, no retry armed and nothing reported:
  \<^verbatim>\<open>handleReconnect\<close> and \<^verbatim>\<open>handleClose\<close> change nothing any more.
\<close>

theorem failed_retry_stalls:
  "(let s = ws_run repository_config (new_WebSocketManager 0)
              [CallConnect Throws, TimerFires retry_timer 5000 Throws]
    in isReconnecting s \<and> reconnectAttempts s = 1 \<and> timers s = [] \<and>
       calls s = [GetHistoricalKlines ''BTCUSDT'' ''1h'' 100, GetHistoricalKlines ''BTCUSDT'' ''1h'' 100] \<and>
       handleReconnect repository_config s = s \<and> handleClose repository_config s = s) \<and>
   (let s = ws_run repository_config (new_WebSocketManager 0)
              [CallConnect Throws, TimerFires retry_timer 5000 (Returns []), SocketError, SocketClose]
    in isReconnecting s \<and> reconnectAttempts s = 1 \<and> timers s = [monitor_timer 2] \<and>
       calls s = [GetHistoricalKlines ''BTCUSDT'' ''1h'' 100, GetHistoricalKlines ''BTCUSDT'' ''1h'' 100,
                  NewWebSocket ''wss://fstream.binance.com/ws/btcusdt@kline_1h'', WsClose])"
  by (simp add: ws_run_def Let_def retry_timer_def monitor_timer_def repository_config_def
        new_WebSocketManager_def connect_def handleReconnect_def reconnect_delay_def arm_timer_def
        emit_def fire_timer_def clear_timer_def handleClose_def handleError_def cleanup_def
        setupHeartbeat_def setupConnectionMonitor_def wsEndpoint_def toLowerCase_def)

subsection \<open>Timers and \<^verbatim>\<open>close\<close>\<close>

lemma timers_cleanup_keeps:
  assumes "t \<in> set (timers s)"
    and "pingInterval s \<noteq> Some (timer_id t)" and "pongTimeout s \<noteq> Some (timer_id t)"
  shows "t \<in> set (timers (cleanup s))"
  using assms by (auto simp: cleanup_def clear_timer_def Let_def split: option.splits)

lemma timers_close: "timers (close s) = timers (cleanup s)"
  by (simp add: close_def emit_def Let_def split: option.splits)

lemma pongTimeout_cleanup: "pongTimeout (cleanup s) = None"
  by (simp add: cleanup_def clear_timer_def Let_def split: option.splits)

lemma next_timer_cleanup: "next_timer (cleanup s) = next_timer s"
  by (simp add: cleanup_def clear_timer_def Let_def split: option.splits)

lemma connect_arms_monitor:
  "monitor_timer (Suc (next_timer s)) \<in> set (timers (connect cfg (Returns klines) s)) \<and>
   pingInterval (connect cfg (Returns klines) s) = Some (next_timer s) \<and>
   pongTimeout (connect cfg (Returns klines) s) = None"
  by (simp add: connect_def setupConnectionMonitor_def setupHeartbeat_def arm_timer_def Let_def
        monitor_timer_def pongTimeout_cleanup next_timer_cleanup emit_def foldl_emit
        split: prod.splits)

lemma monitor_survives_close:
  "monitor_timer (Suc (next_timer s)) \<in> set (timers (close (connect cfg (Returns klines) s)))"
proof -
  let ?c = "connect cfg (Returns klines) s"
  have "monitor_timer (Suc (next_timer s)) \<in> set (timers ?c)"
    using connect_arms_monitor by blast
  moreover have "pingInterval ?c \<noteq> Some (timer_id (monitor_timer (Suc (next_timer s))))"
    by (simp add: connect_arms_monitor monitor_timer_def)
  moreover have "pongTimeout ?c \<noteq> Some (timer_id (monitor_timer (Suc (next_timer s))))"
    by (simp add: connect_arms_monitor)
  ultimately show ?thesis
    unfolding timers_close by (rule timers_cleanup_keeps)
qed

text \<open>
  C5: after \<^verbatim>\<open>close()\<close> no timer of the manager should be armed. The watchdog interval
  that \<^verbatim>\<open>setupConnectionMonitor\<close> arms is still armed after \<^verbatim>\<open>close()\<close>, after any
  successful \<^verbatim>\<open>connect()\<close> from any state, because its handle was never kept. For a
  fresh manager that connects and is closed, the watchdog is the one timer left, the
  socket is \<^verbatim>\<open>null\<close>, and when the watchdog fires 200 seconds after the last message its
  callback runs and throws a \<^verbatim>\<open>TypeError\<close> on \<^verbatim>\<open>this.ws.readyState\<close>.
\<close>

theorem close_leaves_monitor_armed:
  "monitor_timer (Suc (next_timer s)) \<in> set (timers (close (connect cfg (Returns klines) s))) \<and>
   (let s1 = close (connect example_config (Returns []) (new_WebSocketManager 0))
    in timers s1 = [monitor_timer 1] \<and> ws s1 = None \<and>
       fire_timer example_config 200000 Throws (monitor_timer 1) s1 = Some (s1, Some TypeError))"
proof -
  have "let s1 = close (connect example_config (Returns []) (new_WebSocketManager 0))
    in timers s1 = [monitor_timer 1] \<and> ws s1 = None \<and>
       fire_timer example_config 200000 Throws (monitor_timer 1) s1 = Some (s1, Some TypeError)"
    by (simp add: Let_def close_def cleanup_def clear_timer_def connect_def setupHeartbeat_def
          setupConnectionMonitor_def arm_timer_def emit_def new_WebSocketManager_def
          fire_timer_def monitorTick_def monitor_timer_def)
  then show ?thesis using monitor_survives_close by blast
qed

subsection \<open>Subscriptions\<close>

text \<open>
  C6 (as amended): \<^verbatim>\<open>subscribe(channel)\<close> on an open socket sends the \<^verbatim>\<open>SUBSCRIBE\<close> frame
  for the channel at once and adds the channel to the set; on a socket that is not open
  it does nothing, so the channel is not retained; with no socket it throws. On the
  open event, \<^verbatim>\<open>handleOpen\<close> replays the whole set as one batched \<^verbatim>\<open>SUBSCRIBE\<close> frame when
  the set is not empty, sends nothing when it is empty, and leaves the set as it is.
\<close>

theorem subscribe_behaviour:
  "(ws s = Some OPEN \<longrightarrow>
      subscribe channel now s =
        (s\<lparr>calls := calls s @ [WsSend (SUBSCRIBE [channel] now)],
           subscriptions := set_add channel (subscriptions s)\<rparr>, None)) \<and>
   (ws s = Some readyState \<and> readyState \<noteq> OPEN \<longrightarrow> subscribe channel now s = (s, None)) \<and>
   (ws s = None \<longrightarrow> subscribe channel now s = (s, Some TypeError)) \<and>
   (ws s \<noteq> None \<and> subscriptions s \<noteq> [] \<longrightarrow>
      calls (fst (handleOpen now now' s)) = calls s @ [WsSend (SUBSCRIBE (subscriptions s) now')] \<and>
      snd (handleOpen now now' s) = None) \<and>
   (subscriptions s = [] \<longrightarrow> calls (fst (handleOpen now now' s)) = calls s) \<and>
   subscriptions (fst (handleOpen now now' s)) = subscriptions s"
  by (cases s) (auto simp: subscribe_def handleOpen_def resubscribe_def emit_def split: option.splits)

theorem subscribe_behaviour_witness:
  "subscribe ''c'' 7 open_manager =
     (open_manager\<lparr>calls := [WsSend (SUBSCRIBE [''c''] 7)], subscriptions := [''a'', ''b'', ''c'']\<rparr>, None) \<and>
   subscribe ''c'' 7 connecting_manager = (connecting_manager, None) \<and>
   subscribe ''c'' 7 (new_WebSocketManager 0) = (new_WebSocketManager 0, Some TypeError) \<and>
   calls (fst (handleOpen 7 9 open_manager)) = [WsSend (SUBSCRIBE [''a'', ''b''] 9)]"
  using subscribe_behaviour [where s = open_manager and channel = "''c''" and now = 7
          and readyState = OPEN and now' = 9]
        subscribe_behaviour [where s = connecting_manager and channel = "''c''" and now = 7
          and readyState = CONNECTING]
        subscribe_behaviour [where s = "new_WebSocketManager 0" and channel = "''c''" and now = 7]
  by (simp add: open_manager_def connecting_manager_def new_WebSocketManager_def set_add_def)

text \<open>
  C6 as stated fails: a channel subscribed while the socket is connecting is not in the
  subscription set afterwards, and the open event that follows replays nothing.
\<close>

theorem subscribe_not_retained_counterexample:
  "ws connecting_manager \<noteq> Some OPEN \<and>
   ''c'' \<notin> set (subscriptions (fst (subscribe ''c'' 7 connecting_manager))) \<and>
   calls (fst (handleOpen 8 9 ((fst (subscribe ''c'' 7 connecting_manager))\<lparr>ws := Some OPEN\<rparr>))) = []"
  by (simp add: subscribe_def handleOpen_def resubscribe_def connecting_manager_def
        new_WebSocketManager_def)

section \<open>Properties of the trading bot\<close>

subsection \<open>Crossover signals\<close>

lemma checkTradeSignals_unset:
  assumes "falsy (previousEma5 (technicalAnalysis tbot)) \<or> falsy (previousEma50 (technicalAnalysis tbot))"
  shows "checkTradeSignals ex ema5 ema50 price tbot =
           (tbot\<lparr>technicalAnalysis :=
                   (technicalAnalysis tbot)\<lparr>previousEma5 := Some ema5, previousEma50 := Some ema50\<rparr>\<rparr>, [])"
  using assms
  by (cases "previousEma5 (technicalAnalysis tbot)"; cases "previousEma50 (technicalAnalysis tbot)")
     (simp_all add: checkTradeSignals_def falsy_def Let_def)

lemma checkTradeSignals_throws:
  assumes "previousEma5 (technicalAnalysis tbot) = Some p5" and "p5 \<noteq> 0"
    and "previousEma50 (technicalAnalysis tbot) = Some p50" and "p50 \<noteq> 0"
    and "getCurrentPosition_reply ex = Throws"
  shows "checkTradeSignals ex ema5 ema50 price tbot = (tbot, [])"
  using assms by (simp add: checkTradeSignals_def Let_def)

lemma checkTradeSignals_held:
  assumes "previousEma5 (technicalAnalysis tbot) = Some p5" and "p5 \<noteq> 0"
    and "previousEma50 (technicalAnalysis tbot) = Some p50" and "p50 \<noteq> 0"
    and "getCurrentPosition_reply ex = Returns (Some d)"
  shows "checkTradeSignals ex ema5 ema50 price tbot =
           (if (d = short \<and> price > ema5 \<and> price > ema50) \<or> (d = long \<and> price < ema5 \<and> price < ema50)
            then (if closePosition_returns ex
                  then (tbot\<lparr>lastCrossSignal := None\<rparr>, [ClosePosition price])
                  else (tbot, [ClosePosition price]))
            else (tbot, []))"
  using assms by (cases d) (simp_all add: checkTradeSignals_def Let_def)

lemma checkTradeSignals_flat:
  assumes "previousEma5 (technicalAnalysis tbot) = Some p5" and "p5 \<noteq> 0"
    and "previousEma50 (technicalAnalysis tbot) = Some p50" and "p50 \<noteq> 0"
    and "getCurrentPosition_reply ex = Returns None"
  shows "checkTradeSignals ex ema5 ema50 price tbot =
           (if p5 > p50 \<and> ema5 < ema50 then
              (if lastCrossSignal tbot \<noteq> Some DOWN_CROSS then
                 (if openPosition_returns ex
                  then (tbot\<lparr>crossPrice := Some price, lastCrossSignal := Some DOWN_CROSS\<rparr>,
                        [OpenPosition short price])
                  else (tbot\<lparr>crossPrice := Some price\<rparr>, [OpenPosition short price]))
               else (tbot\<lparr>crossPrice := Some price\<rparr>, []))
            else if p5 < p50 \<and> ema5 > ema50 then
              (if lastCrossSignal tbot \<noteq> Some UP_CROSS then
                 (if openPosition_returns ex
                  then (tbot\<lparr>crossPrice := Some price, lastCrossSignal := Some UP_CROSS\<rparr>,
                        [OpenPosition long price])
                  else (tbot\<lparr>crossPrice := Some price\<rparr>, [OpenPosition long price]))
               else (tbot\<lparr>crossPrice := Some price\<rparr>, []))
            else (tbot, []))"
proof -
  consider (down) "p5 > p50 \<and> ema5 < ema50" | (up) "p5 < p50 \<and> ema5 > ema50"
    | (none) "\<not> (p5 > p50 \<and> ema5 < ema50) \<and> \<not> (p5 < p50 \<and> ema5 > ema50)"
    by blast
  then show ?thesis
  proof cases
    case down
    then have "\<not> (p5 < p50 \<and> ema5 > ema50)" by simp
    with down assms show ?thesis by (simp add: checkTradeSignals_def Let_def)
  next
    case up
    then have "\<not> (p5 > p50 \<and> ema5 < ema50)" by simp
    with up assms show ?thesis by (simp add: checkTradeSignals_def Let_def)
  next
    case none
    with assms show ?thesis
      by (cases "p50 < p5"; cases "ema5 < ema50"; cases "p5 < p50"; cases "ema50 < ema5")
         (simp_all add: checkTradeSignals_def Let_def)
  qed
qed

lemma checkTradeSignals_shape:
  "(snd (checkTradeSignals ex ema5 ema50 price tbot) = [] \<and>
      lastCrossSignal (fst (checkTradeSignals ex ema5 ema50 price tbot)) = lastCrossSignal tbot) \<or>
   snd (checkTradeSignals ex ema5 ema50 price tbot) = [ClosePosition price] \<or>
   (\<exists>d. snd (checkTradeSignals ex ema5 ema50 price tbot) = [OpenPosition d price] \<and>
        lastCrossSignal tbot \<noteq> Some (signal_of d) \<and>
        (openPosition_returns ex \<longrightarrow>
           lastCrossSignal (fst (checkTradeSignals ex ema5 ema50 price tbot)) = Some (signal_of d)))"
proof (cases "falsy (previousEma5 (technicalAnalysis tbot)) \<or> falsy (previousEma50 (technicalAnalysis tbot))")
  case True
  then show ?thesis by (simp add: checkTradeSignals_unset)
next
  case False
  then obtain p5 p50 where prev:
    "previousEma5 (technicalAnalysis tbot) = Some p5" "p5 \<noteq> 0"
    "previousEma50 (technicalAnalysis tbot) = Some p50" "p50 \<noteq> 0"
    by (auto simp: falsy_def split: option.splits)
  show ?thesis
  proof (cases "getCurrentPosition_reply ex")
    case Throws
    with prev show ?thesis by (simp add: checkTradeSignals_throws)
  next
    case (Returns position)
    show ?thesis
    proof (cases position)
      case None
      with Returns have flat: "getCurrentPosition_reply ex = Returns None" by simp
      show ?thesis
        unfolding checkTradeSignals_flat [OF prev flat] by simp
    next
      case (Some d)
      with Returns have held: "getCurrentPosition_reply ex = Returns (Some d)" by simp
      show ?thesis
        unfolding checkTradeSignals_held [OF prev held] by simp
    qed
  qed
qed

lemma checkTradeSignals_open_long:
  assumes "previousEma5 (technicalAnalysis tbot) = Some p5" and "p5 \<noteq> 0"
    and "previousEma50 (technicalAnalysis tbot) = Some p50" and "p50 \<noteq> 0"
  shows "snd (checkTradeSignals ex ema5 ema50 price tbot) = [OpenPosition long price] \<longleftrightarrow>
           getCurrentPosition_reply ex = Returns None \<and> p5 < p50 \<and> ema5 > ema50 \<and>
           lastCrossSignal tbot \<noteq> Some UP_CROSS"
proof (cases "getCurrentPosition_reply ex")
  case Throws
  then show ?thesis by (simp add: checkTradeSignals_throws [OF assms])
next
  case (Returns position)
  show ?thesis
  proof (cases position)
    case None
    with Returns have flat: "getCurrentPosition_reply ex = Returns None" by simp
    show ?thesis unfolding checkTradeSignals_flat [OF assms flat] using flat by auto
  next
    case (Some d)
    with Returns have held: "getCurrentPosition_reply ex = Returns (Some d)" by simp
    show ?thesis unfolding checkTradeSignals_held [OF assms held] using held by simp
  qed
qed

lemma checkTradeSignals_open_short:
  assumes "previousEma5 (technicalAnalysis tbot) = Some p5" and "p5 \<noteq> 0"
    and "previousEma50 (technicalAnalysis tbot) = Some p50" and "p50 \<noteq> 0"
  shows "snd (checkTradeSignals ex ema5 ema50 price tbot) = [OpenPosition short price] \<longleftrightarrow>
           getCurrentPosition_reply ex = Returns None \<and> p5 > p50 \<and> ema5 < ema50 \<and>
           lastCrossSignal tbot \<noteq> Some DOWN_CROSS"
proof (cases "getCurrentPosition_reply ex")
  case Throws
  then show ?thesis by (simp add: checkTradeSignals_throws [OF assms])
next
  case (Returns position)
  show ?thesis
  proof (cases position)
    case None
    with Returns have flat: "getCurrentPosition_reply ex = Returns None" by simp
    show ?thesis unfolding checkTradeSignals_flat [OF assms flat] using flat by auto
  next
    case (Some d)
    with Returns have held: "getCurrentPosition_reply ex = Returns (Some d)" by simp
    show ?thesis unfolding checkTradeSignals_held [OF assms held] using held by simp
  qed
qed

lemma checkTradeSignals_opens:
  assumes "OpenPosition d q \<in> set (snd (checkTradeSignals ex ema5 ema50 price tbot))"
  shows "snd (checkTradeSignals ex ema5 ema50 price tbot) = [OpenPosition d price] \<and>
         lastCrossSignal tbot \<noteq> Some (signal_of d) \<and>
         (openPosition_returns ex \<longrightarrow>
            lastCrossSignal (fst (checkTradeSignals ex ema5 ema50 price tbot)) = Some (signal_of d))"
  using checkTradeSignals_shape [of ex ema5 ema50 price tbot] assms by auto

text \<open>
  C1 (as amended): for a call of \<^verbatim>\<open>checkTradeSignals\<close> during whose awaits no other
  handler writes the bot's fields, with non-null, non-zero \<^verbatim>\<open>previousEma5\<close> and
  \<^verbatim>\<open>previousEma50\<close> (the pair stored at the last closed candle): a long open is issued
  exactly when the exchange reports no position, the stored pair has EMA5 below EMA50,
  the current pair has EMA5 above EMA50 and \<^verbatim>\<open>lastCrossSignal\<close> is not \<^verbatim>\<open>UP_CROSS\<close>; a
  short open exactly in the mirrored case. With a stored value that is null or zero no
  order is issued. Any open is the only order of its call, its signal differs from the
  stored last signal, and when \<^verbatim>\<open>openPosition\<close> returns the signal is stored.
\<close>

theorem crossover_open_iff:
  "(previousEma5 (technicalAnalysis tbot) = Some p5 \<and> p5 \<noteq> 0 \<and>
    previousEma50 (technicalAnalysis tbot) = Some p50 \<and> p50 \<noteq> 0 \<longrightarrow>
      (snd (checkTradeSignals ex ema5 ema50 price tbot) = [OpenPosition long price] \<longleftrightarrow>
         getCurrentPosition_reply ex = Returns None \<and> p5 < p50 \<and> ema5 > ema50 \<and>
         lastCrossSignal tbot \<noteq> Some UP_CROSS) \<and>
      (snd (checkTradeSignals ex ema5 ema50 price tbot) = [OpenPosition short price] \<longleftrightarrow>
         getCurrentPosition_reply ex = Returns None \<and> p5 > p50 \<and> ema5 < ema50 \<and>
         lastCrossSignal tbot \<noteq> Some DOWN_CROSS)) \<and>
   (falsy (previousEma5 (technicalAnalysis tbot)) \<or> falsy (previousEma50 (technicalAnalysis tbot)) \<longrightarrow>
      snd (checkTradeSignals ex ema5 ema50 price tbot) = []) \<and>
   (\<forall>d q. OpenPosition d q \<in> set (snd (checkTradeSignals ex ema5 ema50 price tbot)) \<longrightarrow>
      snd (checkTradeSignals ex ema5 ema50 price tbot) = [OpenPosition d price] \<and>
      lastCrossSignal tbot \<noteq> Some (signal_of d) \<and>
      (openPosition_returns ex \<longrightarrow>
         lastCrossSignal (fst (checkTradeSignals ex ema5 ema50 price tbot)) = Some (signal_of d)))"
  using checkTradeSignals_open_long [of tbot p5 p50 ex ema5 ema50 price]
    checkTradeSignals_open_short [of tbot p5 p50 ex ema5 ema50 price]
    checkTradeSignals_opens [of _ _ ex ema5 ema50 price tbot]
    checkTradeSignals_unset [of tbot ex ema5 ema50 price]
  by simp

text \<open>
  With the stored pair (99, 100), the pair (101, 100) and no position the long open is
  issued and \<^verbatim>\<open>UP_CROSS\<close> stored; the same tick on the resulting state does not open
  long again; with nothing stored in \<^verbatim>\<open>previousEma5\<close> no order is issued.
\<close>

theorem crossover_open_iff_witness:
  "snd (checkTradeSignals flat_replies 101 100 (201 / 2) crossing_bot) =
     [OpenPosition long (201 / 2)] \<and>
   lastCrossSignal (fst (checkTradeSignals flat_replies 101 100 (201 / 2) crossing_bot)) =
     Some UP_CROSS \<and>
   snd (checkTradeSignals flat_replies 101 100 (201 / 2)
          (fst (checkTradeSignals flat_replies 101 100 (201 / 2) crossing_bot))) \<noteq>
     [OpenPosition long (201 / 2)] \<and>
   snd (checkTradeSignals flat_replies 101 100 (201 / 2) new_TradingBot) = []"
proof -
  let ?r = "checkTradeSignals flat_replies 101 100 (201 / 2) crossing_bot"
  have prev: "previousEma5 (technicalAnalysis crossing_bot) = Some 99 \<and> (99::real) \<noteq> 0 \<and>
      previousEma50 (technicalAnalysis crossing_bot) = Some 100 \<and> (100::real) \<noteq> 0"
    by (simp add: crossing_bot_def new_TradingBot_def new_TechnicalAnalysis_def)
  have cond: "getCurrentPosition_reply flat_replies = Returns None \<and> (99::real) < 100 \<and>
      (101::real) > 100 \<and> lastCrossSignal crossing_bot \<noteq> Some UP_CROSS"
    by (simp add: flat_replies_def crossing_bot_def new_TradingBot_def)
  have ret: "openPosition_returns flat_replies" by (simp add: flat_replies_def)
  note t1 = crossover_open_iff [of crossing_bot 99 100 flat_replies 101 100 "201 / 2"]
  have one: "snd ?r = [OpenPosition long (201 / 2)]"
    by (rule iffD2 [OF mp [OF t1 [THEN conjunct1] prev, THEN conjunct1] cond])
  then have mem: "OpenPosition long (201 / 2) \<in> set (snd ?r)"
    by simp
  from t1 [THEN conjunct2, THEN conjunct2, rule_format, OF mem] ret
  have stored: "lastCrossSignal (fst ?r) = Some UP_CROSS"
    by simp
  have prev': "previousEma5 (technicalAnalysis (fst ?r)) = Some 99 \<and> (99::real) \<noteq> 0 \<and>
      previousEma50 (technicalAnalysis (fst ?r)) = Some 100 \<and> (100::real) \<noteq> 0"
    by (simp add: checkTradeSignals_def Let_def flat_replies_def crossing_bot_def
          new_TradingBot_def new_TechnicalAnalysis_def)
  note t2 = crossover_open_iff [of "fst ?r" 99 100 flat_replies 101 100 "201 / 2"]
  from mp [OF t2 [THEN conjunct1] prev', THEN conjunct1] stored
  have two: "snd (checkTradeSignals flat_replies 101 100 (201 / 2) (fst ?r)) \<noteq>
      [OpenPosition long (201 / 2)]"
    by simp
  have unset: "falsy (previousEma5 (technicalAnalysis new_TradingBot)) \<or>
      falsy (previousEma50 (technicalAnalysis new_TradingBot))"
    by (simp add: falsy_def new_TradingBot_def new_TechnicalAnalysis_def)
  note t3 = crossover_open_iff [of new_TradingBot 0 0 flat_replies 101 100 "201 / 2"]
  have three: "snd (checkTradeSignals flat_replies 101 100 (201 / 2) new_TradingBot) = []"
    by (rule mp [OF t3 [THEN conjunct2, THEN conjunct1] unset])
  from one stored two three show ?thesis by (intro conjI)
qed

text \<open>The handler on a closed candle and on a tick, once the EMAs are known.\<close>

lemma handleKline_closed:
  assumes "msg_e message = ''kline''"
    and "calculateEMAs cfg (technicalAnalysis tbot) (k_c (msg_k message)) = (Some ema5, Some ema50)"
    and "ema5 \<noteq> 0" and "ema50 \<noteq> 0" and "k_x (msg_k message)"
  shows "handleKline cfg ex_cross ex_arc message tbot =
           (tbot\<lparr>technicalAnalysis :=
                   updateEmaHistory cfg ema5 ema50
                     (addPrice cfg (k_c (msg_k message)) None (technicalAnalysis tbot))\<rparr>, [])"
  using assms by (simp add: handleKline_def Let_def)

lemma handleKline_live:
  assumes "msg_e message = ''kline''"
    and "calculateEMAs cfg (technicalAnalysis tbot) (k_c (msg_k message)) = (Some ema5, Some ema50)"
    and "ema5 \<noteq> 0" and "ema50 \<noteq> 0" and "\<not> k_x (msg_k message)"
  shows "handleKline cfg ex_cross ex_arc message tbot =
           (let tb2 = fst (checkTradeSignals ex_cross ema5 ema50 (k_c (msg_k message))
                             (tbot\<lparr>technicalAnalysis := updateLastEma ema5 ema50 (technicalAnalysis tbot)\<rparr>));
                cross_actions = snd (checkTradeSignals ex_cross ema5 ema50 (k_c (msg_k message))
                             (tbot\<lparr>technicalAnalysis := updateLastEma ema5 ema50 (technicalAnalysis tbot)\<rparr>))
            in case checkArcPattern cfg (technicalAnalysis tb2) ema5 ema50 of
                 None \<Rightarrow> (tb2, map (Pair CheckTradeSignals) cross_actions)
               | Some pat \<Rightarrow>
                   if Some pat \<noteq> lastArcPattern tb2 then
                     (tb2\<lparr>lastArcPattern := Some pat\<rparr>,
                      map (Pair CheckTradeSignals) cross_actions @
                      map (Pair HandleArcPattern)
                        (handleArcPattern cfg ex_arc pat (k_c (msg_k message)) ema5 ema50 tb2))
                   else (tb2, map (Pair CheckTradeSignals) cross_actions))"
  using assms by (simp add: handleKline_def Let_def split: prod.splits option.splits)

text \<open>The states of the start-up and of the two streams of messages.\<close>

lemma started_bot_eq:
  "started_bot =
     new_TradingBot\<lparr>technicalAnalysis :=
       \<lparr>closingPrices = replicate 50 50000, ema5History = [50000, 50000],
        ema50History = [50000, 50000], previousEma5 = Some 50000, previousEma50 = Some 50000,
        volumeHistory = []\<rparr>\<rparr>"
proof -
  let ?ta0 = "technicalAnalysis new_TradingBot"
  let ?ta1 = "?ta0\<lparr>closingPrices := closingPrices ?ta0 @ replicate 50 (kl_close (flat_kline 50000))\<rparr>"
  have fold: "foldl (\<lambda>ta kl. addPrice repository_config (kl_close kl) None ta) ?ta0
                (replicate 50 (flat_kline 50000)) = ?ta1"
    by (rule foldl_addPrice_replicate)
       (simp add: new_TradingBot_def new_TechnicalAnalysis_def repository_config_def)
  have cp: "closingPrices ?ta1 = replicate 50 50000 @ []"
    by (simp add: new_TradingBot_def new_TechnicalAnalysis_def flat_kline_def)
  have emas: "calculateEMAs repository_config ?ta1 50000 = (Some 50000, Some 50000)"
    using calculateEMAs_flat_prefix [OF cp, of repository_config 50000]
    by (simp add: repository_config_def)
  have ne: "replicate 50 (flat_kline 50000) \<noteq> []" by simp
  have lst: "kl_close (last (replicate 50 (flat_kline 50000))) = 50000"
    by (simp add: flat_kline_def)
  show ?thesis
    unfolding started_bot_def initializeHistoricalData_def Let_def fold
    using ne lst emas
    by (simp add: updateEmaHistory_def repository_config_def new_TradingBot_def
          new_TechnicalAnalysis_def flat_kline_def Let_def)
qed

lemma fallen_bot_eq:
  "fallen_bot =
     new_TradingBot\<lparr>technicalAnalysis :=
       \<lparr>closingPrices = replicate 50 50000 @ [49000],
        ema5History = [50000, 50000, 149000 / 3, 149000 / 3],
        ema50History = [50000, 50000, 2548000 / 51, 2548000 / 51],
        previousEma5 = Some (149000 / 3), previousEma50 = Some (2548000 / 51),
        volumeHistory = []\<rparr>\<rparr>"
proof -
  have cp: "closingPrices (technicalAnalysis started_bot) = replicate 50 50000 @ []"
    by (simp add: started_bot_eq)
  have emas: "calculateEMAs repository_config (technicalAnalysis started_bot)
      (k_c (msg_k (kline_msg 49000 True))) = (Some (149000 / 3), Some (2548000 / 51))"
    using calculateEMAs_flat_prefix [OF cp, of repository_config "k_c (msg_k (kline_msg 49000 True))"]
    by (simp add: repository_config_def kline_msg_def)
  show ?thesis
    unfolding fallen_bot_def
    by (subst handleKline_closed [OF _ emas])
       (simp_all add: kline_msg_def started_bot_eq addPrice_def updateEmaHistory_def
          repository_config_def new_TradingBot_def Let_def)
qed

lemma fallen_emas:
  "calculateEMAs repository_config (technicalAnalysis fallen_bot)
     (k_c (msg_k (kline_msg 52000 False))) = (Some (454000 / 9), Some (130156000 / 2601))"
proof -
  have cp: "closingPrices (technicalAnalysis fallen_bot) = replicate 50 50000 @ [49000]"
    by (simp add: fallen_bot_eq)
  show ?thesis
    using calculateEMAs_flat_prefix [OF cp, of repository_config "k_c (msg_k (kline_msg 52000 False))"]
    by (simp add: repository_config_def kline_msg_def)
qed

lemma fallen_tick_long:
  "snd (handleKline repository_config long_replies flat_replies (kline_msg 52000 False) fallen_bot) = []"
  by (subst handleKline_live [OF _ fallen_emas])
     (simp_all add: kline_msg_def fallen_bot_eq updateLastEma_def checkTradeSignals_def
        checkArcPattern_def long_replies_def flat_replies_def new_TradingBot_def Let_def)

lemma fallen_tick_failing:
  "handleKline repository_config failing_replies flat_replies (kline_msg 52000 False) fallen_bot =
     (new_TradingBot\<lparr>technicalAnalysis :=
        \<lparr>closingPrices = replicate 50 50000 @ [49000],
         ema5History = [50000, 50000, 149000 / 3, 454000 / 9],
         ema50History = [50000, 50000, 2548000 / 51, 130156000 / 2601],
         previousEma5 = Some (149000 / 3), previousEma50 = Some (2548000 / 51),
         volumeHistory = []\<rparr>,
        crossPrice := Some 52000\<rparr>,
      [(CheckTradeSignals, OpenPosition long 52000)])"
  by (subst handleKline_live [OF _ fallen_emas])
     (simp_all add: kline_msg_def fallen_bot_eq updateLastEma_def checkTradeSignals_def
        checkArcPattern_def failing_replies_def flat_replies_def new_TradingBot_def Let_def)

lemma failed_open_tick:
  "snd (handleKline repository_config failing_replies flat_replies (kline_msg 52000 False)
          failed_open_bot) =
     [(CheckTradeSignals, OpenPosition long 52000)]"
proof -
  have eq: "failed_open_bot = fst (new_TradingBot\<lparr>technicalAnalysis :=
        \<lparr>closingPrices = replicate 50 50000 @ [49000],
         ema5History = [50000, 50000, 149000 / 3, 454000 / 9],
         ema50History = [50000, 50000, 2548000 / 51, 130156000 / 2601],
         previousEma5 = Some (149000 / 3), previousEma50 = Some (2548000 / 51),
         volumeHistory = []\<rparr>,
        crossPrice := Some 52000\<rparr>,
      [(CheckTradeSignals, OpenPosition long 52000)])"
    unfolding failed_open_bot_def fallen_tick_failing ..
  have cp: "closingPrices (technicalAnalysis failed_open_bot) = replicate 50 50000 @ [49000]"
    by (simp add: eq)
  have emas: "calculateEMAs repository_config (technicalAnalysis failed_open_bot)
      (k_c (msg_k (kline_msg 52000 False))) = (Some (454000 / 9), Some (130156000 / 2601))"
    using calculateEMAs_flat_prefix [OF cp, of repository_config "k_c (msg_k (kline_msg 52000 False))"]
    by (simp add: repository_config_def kline_msg_def)
  show ?thesis
    by (subst handleKline_live [OF _ emas])
       (simp_all add: kline_msg_def eq updateLastEma_def checkTradeSignals_def
          checkArcPattern_def failing_replies_def flat_replies_def new_TradingBot_def Let_def)
qed

text \<open>
  C1 as stated fails. With the stored pair (99, 100) and the current pair (101, 100) the
  sign of EMA5 - EMA50 changes; with a short position held the tick issues no order, and
  with no position and \<^verbatim>\<open>openPosition\<close> throwing the tick issues the long open and the
  next tick, with both pairs unchanged, issues it a second time. The same under the
  repository's configuration: after the candle that closed at 49000 the stored pair is
  (149000/3, 2548000/51), EMA5 below EMA50, and a tick at 52000 has the pair
  (454000/9, 130156000/2601), EMA5 above EMA50; with a long position held the handler
  issues no order, and with \<^verbatim>\<open>openPosition\<close> throwing the handler issues the long open
  on that tick and again on the next tick at the same price.
\<close>

theorem crossover_open_counterexample:
  "checkTradeSignals short_replies 101 100 (201 / 2) crossing_bot = (crossing_bot, []) \<and>
   snd (checkTradeSignals failing_replies 101 100 (201 / 2) crossing_bot) =
     [OpenPosition long (201 / 2)] \<and>
   snd (checkTradeSignals failing_replies 101 100 (201 / 2)
          (fst (checkTradeSignals failing_replies 101 100 (201 / 2) crossing_bot))) =
     [OpenPosition long (201 / 2)] \<and>
   previousEma5 (technicalAnalysis fallen_bot) = Some (149000 / 3) \<and>
   previousEma50 (technicalAnalysis fallen_bot) = Some (2548000 / 51) \<and>
   calculateEMAs repository_config (technicalAnalysis fallen_bot) 52000 =
     (Some (454000 / 9), Some (130156000 / 2601)) \<and>
   snd (handleKline repository_config long_replies flat_replies (kline_msg 52000 False) fallen_bot) = [] \<and>
   snd (handleKline repository_config failing_replies flat_replies (kline_msg 52000 False) fallen_bot) =
     [(CheckTradeSignals, OpenPosition long 52000)] \<and>
   snd (handleKline repository_config failing_replies flat_replies (kline_msg 52000 False)
          failed_open_bot) =
     [(CheckTradeSignals, OpenPosition long 52000)]"
proof -
  have calls: "checkTradeSignals short_replies 101 100 (201 / 2) crossing_bot = (crossing_bot, []) \<and>
      snd (checkTradeSignals failing_replies 101 100 (201 / 2) crossing_bot) =
        [OpenPosition long (201 / 2)] \<and>
      snd (checkTradeSignals failing_replies 101 100 (201 / 2)
             (fst (checkTradeSignals failing_replies 101 100 (201 / 2) crossing_bot))) =
        [OpenPosition long (201 / 2)]"
    by (simp add: checkTradeSignals_def Let_def short_replies_def failing_replies_def
          flat_replies_def crossing_bot_def new_TradingBot_def new_TechnicalAnalysis_def)
  have stored: "previousEma5 (technicalAnalysis fallen_bot) = Some (149000 / 3) \<and>
      previousEma50 (technicalAnalysis fallen_bot) = Some (2548000 / 51)"
    by (simp add: fallen_bot_eq)
  have current: "calculateEMAs repository_config (technicalAnalysis fallen_bot) 52000 =
      (Some (454000 / 9), Some (130156000 / 2601))"
    using fallen_emas by (simp add: kline_msg_def)
  have first: "snd (handleKline repository_config failing_replies flat_replies
      (kline_msg 52000 False) fallen_bot) = [(CheckTradeSignals, OpenPosition long 52000)]"
    by (simp add: fallen_tick_failing)
  from calls stored current fallen_tick_long first failed_open_tick
  show ?thesis by (intro conjI) simp_all
qed

subsection \<open>Arc signals\<close>


lemma handleArcPattern_unflipped:
  assumes "\<not> (if pattern = TOP then ema5 < ema50 else ema5 > ema50)"
  shows "handleArcPattern cfg ex pattern price ema5 ema50 tbot =
         handleArcPattern cfg' ex pattern price ema5 ema50 (tbot\<lparr>crossPrice := cp\<rparr>)"
  using assms by (cases pattern) (simp_all add: handleArcPattern_def Let_def)









end
